theory Spec2Isabelle
  imports Complex_Main "HOL-Library.Sublist"
begin

section \<open>JavaScript strings and the built-ins the pipeline calls\<close>

text \<open>
  A JavaScript string is a sequence of UTF-16 code units; a code unit is modelled as an
  integer and a string as the list of its code units. \<open>js\<close> writes an ASCII
  literal; a letter outside ASCII is written by its code unit (\<open>0xF3\<close> is
  o with acute accent).
\<close>

type_synonym jsstring = "int list"

definition js :: "string \<Rightarrow> jsstring" where
  "js s = map of_char s"

text \<open>The character classes of the regular expressions: \<^verbatim>\<open>\s\<close> (white space and
  line terminators, also what \<^verbatim>\<open>trim()\<close> removes), the line terminators that
  \<^verbatim>\<open>.\<close> refuses, \<^verbatim>\<open>\w\<close> and \<^verbatim>\<open>\d\<close>.\<close>

definition isSpace :: "int \<Rightarrow> bool" where
  "isSpace c \<longleftrightarrow>
     (9 \<le> c \<and> c \<le> 13) \<or> c = 32 \<or> c = 0xA0 \<or> c = 0x1680 \<or> (0x2000 \<le> c \<and> c \<le> 0x200A)
     \<or> c = 0x2028 \<or> c = 0x2029 \<or> c = 0x202F \<or> c = 0x205F \<or> c = 0x3000 \<or> c = 0xFEFF"

definition isLineTerminator :: "int \<Rightarrow> bool" where
  "isLineTerminator c \<longleftrightarrow> c = 10 \<or> c = 13 \<or> c = 0x2028 \<or> c = 0x2029"

definition isWordChar :: "int \<Rightarrow> bool" where
  "isWordChar c \<longleftrightarrow> (48 \<le> c \<and> c \<le> 57) \<or> (65 \<le> c \<and> c \<le> 90) \<or> c = 95 \<or> (97 \<le> c \<and> c \<le> 122)"

definition isDigit :: "int \<Rightarrow> bool" where
  "isDigit c \<longleftrightarrow> 48 \<le> c \<and> c \<le> 57"

text \<open>\<^verbatim>\<open>str.trim()\<close>.\<close>

definition trimEnd :: "jsstring \<Rightarrow> jsstring" where
  "trimEnd s = rev (dropWhile isSpace (rev s))"

definition trim :: "jsstring \<Rightarrow> jsstring" where
  "trim s = trimEnd (dropWhile isSpace s)"

text \<open>\<^verbatim>\<open>text.includes(part)\<close>: \<open>part\<close> occurs in \<open>text\<close> as a contiguous
  substring; the empty string occurs in every string.\<close>

fun jsIncludes :: "jsstring \<Rightarrow> jsstring \<Rightarrow> bool" where
  "jsIncludes [] e = (e = [])"
| "jsIncludes (c # cs) e = (prefix e (c # cs) \<or> jsIncludes cs e)"

text \<open>\<^verbatim>\<open>str.split(/\s+/)\<close>: the pieces between maximal runs of white space. A string
  that starts or ends with white space yields an empty first or last piece, and the
  empty string yields the one piece \<open>[]\<close>. \<open>sep\<close> says that the scan stands inside
  a run of white space, \<open>cur\<close> is the piece read so far, reversed.\<close>

fun splitFrom :: "bool \<Rightarrow> jsstring \<Rightarrow> jsstring \<Rightarrow> jsstring list" where
  "splitFrom sep cur [] = [rev cur]"
| "splitFrom sep cur (c # cs) =
     (if isSpace c then (if sep then splitFrom True cur cs else rev cur # splitFrom True [] cs)
      else splitFrom False (c # cur) cs)"

definition splitWs :: "jsstring \<Rightarrow> jsstring list" where
  "splitWs s = splitFrom False [] s"

text \<open>
  \<^verbatim>\<open>str.toLowerCase()\<close>, code unit by code unit. The mapping is the Unicode one for
  every code unit below \<open>0x100\<close> (Basic Latin and Latin-1 Supplement, which hold the
  Spanish alphabet); code units from \<open>0x100\<close> on are left as they are.
\<close>

definition lowerCU :: "int \<Rightarrow> int" where
  "lowerCU c = (if (65 \<le> c \<and> c \<le> 90) \<or> (0xC0 \<le> c \<and> c \<le> 0xDE \<and> c \<noteq> 0xD7) then c + 32 else c)"

definition toLowerCase :: "jsstring \<Rightarrow> jsstring" where
  "toLowerCase s = map lowerCU s"

text \<open>
  \<^verbatim>\<open>str.normalize('NFD')\<close>: canonical decomposition, then canonical reordering of the
  combining marks. \<open>tablaNFD\<close> lists the canonical decompositions of the code units
  below \<open>0x100\<close> (all of them: a base letter and one mark); \<open>ccc\<close> is the canonical
  combining class, given for the Combining Diacritical Marks (\<open>0x300\<close> to \<open>0x36F\<close>)
  and the Hebrew accents (\<open>0x591\<close> to \<open>0x5AF\<close>) and \<open>0\<close> for every other code unit
  (which is its value below \<open>0x300\<close>).
\<close>

definition tablaNFD :: "(int \<times> jsstring) list" where
  "tablaNFD =
    [(0xC0, [0x41, 0x300]), (0xC1, [0x41, 0x301]), (0xC2, [0x41, 0x302]), (0xC3, [0x41, 0x303]),
     (0xC4, [0x41, 0x308]), (0xC5, [0x41, 0x30A]), (0xC7, [0x43, 0x327]), (0xC8, [0x45, 0x300]),
     (0xC9, [0x45, 0x301]), (0xCA, [0x45, 0x302]), (0xCB, [0x45, 0x308]), (0xCC, [0x49, 0x300]),
     (0xCD, [0x49, 0x301]), (0xCE, [0x49, 0x302]), (0xCF, [0x49, 0x308]), (0xD1, [0x4E, 0x303]),
     (0xD2, [0x4F, 0x300]), (0xD3, [0x4F, 0x301]), (0xD4, [0x4F, 0x302]), (0xD5, [0x4F, 0x303]),
     (0xD6, [0x4F, 0x308]), (0xD9, [0x55, 0x300]), (0xDA, [0x55, 0x301]), (0xDB, [0x55, 0x302]),
     (0xDC, [0x55, 0x308]), (0xDD, [0x59, 0x301]),
     (0xE0, [0x61, 0x300]), (0xE1, [0x61, 0x301]), (0xE2, [0x61, 0x302]), (0xE3, [0x61, 0x303]),
     (0xE4, [0x61, 0x308]), (0xE5, [0x61, 0x30A]), (0xE7, [0x63, 0x327]), (0xE8, [0x65, 0x300]),
     (0xE9, [0x65, 0x301]), (0xEA, [0x65, 0x302]), (0xEB, [0x65, 0x308]), (0xEC, [0x69, 0x300]),
     (0xED, [0x69, 0x301]), (0xEE, [0x69, 0x302]), (0xEF, [0x69, 0x308]), (0xF1, [0x6E, 0x303]),
     (0xF2, [0x6F, 0x300]), (0xF3, [0x6F, 0x301]), (0xF4, [0x6F, 0x302]), (0xF5, [0x6F, 0x303]),
     (0xF6, [0x6F, 0x308]), (0xF9, [0x75, 0x300]), (0xFA, [0x75, 0x301]), (0xFB, [0x75, 0x302]),
     (0xFC, [0x75, 0x308]), (0xFD, [0x79, 0x301]), (0xFF, [0x79, 0x308])]"

definition decompose :: "int \<Rightarrow> jsstring" where
  "decompose c = (case map_of tablaNFD c of Some d \<Rightarrow> d | None \<Rightarrow> [c])"

definition cccTable :: "(int \<times> int \<times> int) list" where
  "cccTable =
    [(0x300, 0x314, 230), (0x315, 0x315, 232), (0x316, 0x319, 220), (0x31A, 0x31A, 232),
     (0x31B, 0x31B, 216), (0x31C, 0x320, 220), (0x321, 0x322, 202), (0x323, 0x326, 220),
     (0x327, 0x328, 202), (0x329, 0x333, 220), (0x334, 0x338, 1), (0x339, 0x33C, 220),
     (0x33D, 0x344, 230), (0x345, 0x345, 240), (0x346, 0x346, 230), (0x347, 0x349, 220),
     (0x34A, 0x34C, 230), (0x34D, 0x34E, 220), (0x34F, 0x34F, 0), (0x350, 0x352, 230),
     (0x353, 0x356, 220), (0x357, 0x357, 230), (0x358, 0x358, 232), (0x359, 0x35A, 220),
     (0x35B, 0x35B, 230), (0x35C, 0x35C, 233), (0x35D, 0x35E, 234), (0x35F, 0x35F, 233),
     (0x360, 0x361, 234), (0x362, 0x362, 233), (0x363, 0x36F, 230),
     (0x591, 0x591, 220), (0x592, 0x595, 230), (0x596, 0x596, 220), (0x597, 0x599, 230),
     (0x59A, 0x59A, 222), (0x59B, 0x59B, 220), (0x59C, 0x5A1, 230), (0x5A2, 0x5A7, 220),
     (0x5A8, 0x5A9, 230), (0x5AA, 0x5AA, 220), (0x5AB, 0x5AC, 230), (0x5AD, 0x5AD, 222),
     (0x5AE, 0x5AE, 228), (0x5AF, 0x5AF, 230)]"

fun cccIn :: "(int \<times> int \<times> int) list \<Rightarrow> int \<Rightarrow> int" where
  "cccIn [] c = 0"
| "cccIn ((lo, hi, k) # t) c = (if lo \<le> c \<and> c \<le> hi then k else cccIn t c)"

definition ccc :: "int \<Rightarrow> int" where
  "ccc c = cccIn cccTable c"

text \<open>Canonical reordering is a stable sort of every run of marks by combining class:
  a mark moves right past its neighbour only when the neighbour is a mark of a strictly
  smaller class, so a code unit of class \<open>0\<close> neither moves nor is passed.\<close>

fun insertMark :: "int \<Rightarrow> jsstring \<Rightarrow> jsstring" where
  "insertMark c [] = [c]"
| "insertMark c (d # ds) = (if 0 < ccc d \<and> ccc d < ccc c then d # insertMark c ds else c # d # ds)"

fun reorder :: "jsstring \<Rightarrow> jsstring" where
  "reorder [] = []"
| "reorder (c # cs) = insertMark c (reorder cs)"

definition normalizeNFD :: "jsstring \<Rightarrow> jsstring" where
  "normalizeNFD s = reorder (concat (map decompose s))"

section \<open>nlpProcessor.js\<close>

text \<open>\<^verbatim>\<open>limpiarTexto(str)\<close>: lower case, NFD, and
  \<^verbatim>\<open>replace(/[\u0300-\u036f]/g, '')\<close>.\<close>

definition isCombiningMark :: "int \<Rightarrow> bool" where
  "isCombiningMark c \<longleftrightarrow> 0x300 \<le> c \<and> c \<le> 0x36F"

definition limpiarTexto :: "jsstring \<Rightarrow> jsstring" where
  "limpiarTexto str = filter (\<lambda>c. \<not> isCombiningMark c) (normalizeNFD (toLowerCase str))"

text \<open>\<^verbatim>\<open>escapeRegex(text)\<close>: \<^verbatim>\<open>text.replace(/[.*+?^${}()|[\]\\]/g, '\\$&')\<close> puts a
  backslash (\<open>0x5C\<close>) before each of the fourteen syntax characters
  \<^verbatim>\<open>. * + ? ^ $ { } ( ) | [ ] \\<close>.\<close>

definition isRegexSyntax :: "int \<Rightarrow> bool" where
  "isRegexSyntax c \<longleftrightarrow>
     c \<in> set [0x2E, 0x2A, 0x2B, 0x3F, 0x5E, 0x24, 0x7B, 0x7D, 0x28, 0x29, 0x7C, 0x5B, 0x5D, 0x5C]"

definition escapeRegex :: "jsstring \<Rightarrow> jsstring" where
  "escapeRegex text = concat (map (\<lambda>c. if isRegexSyntax c then [0x5C, c] else [c]) text)"

text \<open>\<^verbatim>\<open>matchFlexible(entidadNormal, textoNormal)\<close>. An empty string is falsy.\<close>

definition matchFlexible :: "jsstring \<Rightarrow> jsstring \<Rightarrow> bool" where
  "matchFlexible entidadNormal textoNormal =
     (if entidadNormal = [] \<or> textoNormal = [] then False
      else if jsIncludes textoNormal entidadNormal then True
      else list_ex (\<lambda>parte. jsIncludes textoNormal parte) (splitWs entidadNormal))"

text \<open>\<^verbatim>\<open>normalizar(texto)\<close>. The call
  \<^verbatim>\<open>nlp(texto).normalize({ punctuation: true, plurals: true }).out('text')\<close> belongs to
  the library \<^verbatim>\<open>compromise\<close>, which is not part of the repository: it is the
  parameter \<open>nlp\<close> of every function that normalises a question. The logging is left
  out.\<close>

definition normalizar :: "(jsstring \<Rightarrow> jsstring) \<Rightarrow> jsstring \<Rightarrow> jsstring" where
  "normalizar nlp texto = limpiarTexto (nlp texto)"

subsection \<open>detectarExistencia\<close>

text \<open>The seven patterns have one shape,
  \<^verbatim>\<open>/^\<close>\<open>cabeza\<close>\<^verbatim>\<open>(n)?\<close>\<open>cola\<close>\<^verbatim>\<open>\s+(.+)$/\<close>, where the group
  \<^verbatim>\<open>(n)?\<close> is present only in the two patterns of \<^verbatim>\<open>existe\<close>; they carry no flag.\<close>

record plantilla =
  cabeza :: jsstring
  grupoN :: bool
  cola :: jsstring

definition patrones :: "plantilla list" where
  "patrones =
    [\<lparr>cabeza = js ''hubo alguna'', grupoN = False, cola = []\<rparr>,
     \<lparr>cabeza = js ''hubo'', grupoN = False, cola = []\<rparr>,
     \<lparr>cabeza = js ''existe'', grupoN = True, cola = js '' alguna''\<rparr>,
     \<lparr>cabeza = js ''existe'', grupoN = True, cola = []\<rparr>,
     \<lparr>cabeza = js ''existi'' @ [0xF3], grupoN = False, cola = []\<rparr>,
     \<lparr>cabeza = js ''hay alguna'', grupoN = False, cola = []\<rparr>,
     \<lparr>cabeza = js ''hay'', grupoN = False, cola = []\<rparr>]"

text \<open>\<^verbatim>\<open>\s+(.+)$\<close> on the rest of the text: the greedy \<^verbatim>\<open>\s+\<close> takes the whole run of
  white space and the group takes what follows, which must not be empty and must hold
  no line terminator. When nothing follows the run, \<^verbatim>\<open>\s+\<close> gives its last code unit
  back to the group.\<close>

definition espaciosYGrupo :: "jsstring \<Rightarrow> jsstring option" where
  "espaciosYGrupo r =
     (let ws = takeWhile isSpace r; resto = dropWhile isSpace r in
      if ws = [] then None
      else if resto \<noteq> [] then (if list_ex isLineTerminator resto then None else Some resto)
      else if length ws < 2 \<or> isLineTerminator (last ws) then None
      else Some [last ws])"

definition trasCola :: "jsstring \<Rightarrow> jsstring \<Rightarrow> jsstring option" where
  "trasCola col r = (if prefix col r then espaciosYGrupo (drop (length col) r) else None)"

text \<open>\<^verbatim>\<open>sinSignos.match(pat)\<close>: \<open>None\<close> for \<^verbatim>\<open>null\<close>, otherwise the capture groups
  \<^verbatim>\<open>m[1]\<close>, \<^verbatim>\<open>m[2]\<close> in order, a group that took no part in the match being
  \<^verbatim>\<open>undefined\<close> (\<open>None\<close>). The optional \<^verbatim>\<open>(n)?\<close> is greedy: it is tried with the
  \<^verbatim>\<open>n\<close> first.\<close>

definition matchPlantilla :: "plantilla \<Rightarrow> jsstring \<Rightarrow> jsstring option list option" where
  "matchPlantilla p s =
     (if \<not> prefix (cabeza p) s then None
      else let r = drop (length (cabeza p)) s in
        if grupoN p then
          (case (case r of [] \<Rightarrow> None | c # r' \<Rightarrow> if c = 0x6E then trasCola (cola p) r' else None) of
             Some x \<Rightarrow> Some [Some [0x6E], Some x]
           | None \<Rightarrow> map_option (\<lambda>x. [None, Some x]) (trasCola (cola p) r))
        else map_option (\<lambda>x. [Some x]) (trasCola (cola p) r))"

text \<open>\<^verbatim>\<open>m[i]\<close> for \<open>i \<ge> 1\<close> (an index past the groups reads \<^verbatim>\<open>undefined\<close>), and
  \<^verbatim>\<open>a || b\<close> on values that are a string or \<^verbatim>\<open>undefined\<close>.\<close>

definition grupo :: "jsstring option list \<Rightarrow> nat \<Rightarrow> jsstring option" where
  "grupo m i = (if 1 \<le> i \<and> i \<le> length m then m ! (i - 1) else None)"

definition oLogico :: "jsstring option \<Rightarrow> jsstring option \<Rightarrow> jsstring option" where
  "oLogico a b = (case a of Some x \<Rightarrow> (if x \<noteq> [] then Some x else b) | None \<Rightarrow> b)"

text \<open>\<^verbatim>\<open>replace(/^[\<questiondown>?]+|[\<questiondown>?]+$/g, '')\<close> (the inverted question mark is \<open>0xBF\<close>)
  and \<^verbatim>\<open>replace(/[?\.!]+$/, '')\<close>.\<close>

definition quitarSignos :: "jsstring \<Rightarrow> jsstring" where
  "quitarSignos s = rev (dropWhile (\<lambda>c. c = 0xBF \<or> c = 0x3F) (rev (dropWhile (\<lambda>c. c = 0xBF \<or> c = 0x3F) s)))"

definition quitarPuntuacionFinal :: "jsstring \<Rightarrow> jsstring" where
  "quitarPuntuacionFinal s = rev (dropWhile (\<lambda>c. c = 0x3F \<or> c = 0x2E \<or> c = 0x21) (rev s))"

text \<open>The loop over \<^verbatim>\<open>patrones\<close>: the first pattern that matches with a truthy
  \<^verbatim>\<open>m[1] || m[2]\<close> returns.\<close>

fun probarPatrones :: "plantilla list \<Rightarrow> jsstring \<Rightarrow> jsstring option" where
  "probarPatrones [] sinSignos = None"
| "probarPatrones (pat # pats) sinSignos =
     (case matchPlantilla pat sinSignos of
        None \<Rightarrow> probarPatrones pats sinSignos
      | Some m \<Rightarrow>
          (case oLogico (grupo m 1) (grupo m 2) of
             None \<Rightarrow> probarPatrones pats sinSignos
           | Some termino \<Rightarrow>
               if termino = [] then probarPatrones pats sinSignos
               else Some (limpiarTexto (trim (quitarPuntuacionFinal (trim termino))))))"

definition detectarExistencia :: "jsstring \<Rightarrow> jsstring option" where
  "detectarExistencia textoOriginal =
     (let txt = trim (toLowerCase textoOriginal);
          sinSignos = trim (quitarSignos txt)
      in probarPatrones patrones sinSignos)"

subsection \<open>Regular expressions built at run time\<close>

text \<open>A \<^verbatim>\<open>RegExp\<close> object is its source and its flags. The program builds two kinds:
  \<^verbatim>\<open>new RegExp(`\\b${pat}\\b`, 'i')\<close> and \<^verbatim>\<open>new RegExp(`^${pat}$`, 'i')\<close>, with
  \<open>pat\<close> escaped by \<^verbatim>\<open>escapeRegex\<close>.\<close>

record regexp =
  source :: jsstring
  flags :: jsstring

definition wordRegExp :: "jsstring \<Rightarrow> regexp" where
  "wordRegExp pat = \<lparr>source = [0x5C, 0x62] @ pat @ [0x5C, 0x62], flags = js ''i''\<rparr>"

definition wholeRegExp :: "jsstring \<Rightarrow> regexp" where
  "wholeRegExp pat = \<lparr>source = [0x5E] @ pat @ [0x24], flags = js ''i''\<rparr>"

text \<open>The sources that occur are sequences of literal code units, escaped syntax
  characters, \<^verbatim>\<open>\b\<close>, \<^verbatim>\<open>^\<close> and \<^verbatim>\<open>$\<close>; \<open>parseRe\<close> reads such a source and answers
  \<open>None\<close> on any other.\<close>

datatype atom = Boundary | Start | End | Lit int

fun parseRe :: "jsstring \<Rightarrow> atom list option" where
  "parseRe [] = Some []"
| "parseRe [c] =
     (if c = 0x5E then Some [Start] else if c = 0x24 then Some [End]
      else if isRegexSyntax c then None else Some [Lit c])"
| "parseRe (c # d # ds) =
     (if c = 0x5C then
        (if d = 0x62 then map_option (Cons Boundary) (parseRe ds)
         else if isRegexSyntax d then map_option (Cons (Lit d)) (parseRe ds)
         else None)
      else if c = 0x5E then map_option (Cons Start) (parseRe (d # ds))
      else if c = 0x24 then map_option (Cons End) (parseRe (d # ds))
      else if isRegexSyntax c then None
      else map_option (Cons (Lit c)) (parseRe (d # ds)))"

text \<open>With the flag \<^verbatim>\<open>i\<close> two code units match when their canonical forms (the
  upper case, where it is one code unit) are equal. \<open>canonCU\<close> is that mapping on
  the code units below \<open>0x100\<close> and the identity above.\<close>

definition canonCU :: "int \<Rightarrow> int" where
  "canonCU c =
     (if (97 \<le> c \<and> c \<le> 122) \<or> (0xE0 \<le> c \<and> c \<le> 0xFE \<and> c \<noteq> 0xF7) then c - 32
      else if c = 0xFF then 0x178 else if c = 0xB5 then 0x39C else c)"

definition sameCU :: "bool \<Rightarrow> int \<Rightarrow> int \<Rightarrow> bool" where
  "sameCU ci c d \<longleftrightarrow> (if ci then canonCU c = canonCU d else c = d)"

text \<open>\<^verbatim>\<open>\b\<close> holds between a word character and a code unit that is none (or an end
  of the text). \<open>prev\<close> is the code unit before the position.\<close>

definition atBoundary :: "int option \<Rightarrow> jsstring \<Rightarrow> bool" where
  "atBoundary prev s \<longleftrightarrow>
     (case prev of None \<Rightarrow> False | Some p \<Rightarrow> isWordChar p) \<noteq> (case s of [] \<Rightarrow> False | d # _ \<Rightarrow> isWordChar d)"

fun matchHere :: "bool \<Rightarrow> atom list \<Rightarrow> int option \<Rightarrow> jsstring \<Rightarrow> bool" where
  "matchHere ci [] prev s = True"
| "matchHere ci (Boundary # as) prev s = (atBoundary prev s \<and> matchHere ci as prev s)"
| "matchHere ci (Start # as) prev s = (prev = None \<and> matchHere ci as prev s)"
| "matchHere ci (End # as) prev s = (s = [] \<and> matchHere ci as prev s)"
| "matchHere ci (Lit c # as) prev [] = False"
| "matchHere ci (Lit c # as) prev (d # ds) = (sameCU ci c d \<and> matchHere ci as (Some d) ds)"

fun searchFrom :: "bool \<Rightarrow> atom list \<Rightarrow> int option \<Rightarrow> jsstring \<Rightarrow> bool" where
  "searchFrom ci as prev [] = matchHere ci as prev []"
| "searchFrom ci as prev (d # ds) = (matchHere ci as prev (d # ds) \<or> searchFrom ci as (Some d) ds)"

text \<open>\<^verbatim>\<open>re.test(text)\<close>.\<close>

definition reTest :: "regexp \<Rightarrow> jsstring \<Rightarrow> bool" where
  "reTest re text =
     (case parseRe (source re) of
        None \<Rightarrow> False
      | Some as \<Rightarrow> searchFrom (0x69 \<in> set (flags re)) as None text)"

subsection \<open>verbosClave\<close>

text \<open>The object literal, property by property in the order of the source. It writes
  the keys \<^verbatim>\<open>casar\<close>, \<^verbatim>\<open>perder\<close> and \<^verbatim>\<open>cambiar\<close> twice.\<close>

definition verbosClaveLiteral :: "(jsstring \<times> jsstring list) list" where
  "verbosClaveLiteral =
    [(js ''morir'',
       [js ''morir'', js ''muri'' @ [0xF3], js ''falleci'' @ [0xF3],
        js ''pereci'' @ [0xF3], js ''expir'' @ [0xF3], js ''dej'' @ [0xF3] @ js '' de existir'',
        js ''trascendi'' @ [0xF3], js ''se muri'' @ [0xF3]]),
     (js ''fundar'',
       [js ''fundar'', js ''fund'' @ [0xF3], js ''crear'',
        js ''cre'' @ [0xF3], js ''establecer'', js ''estableci'' @ [0xF3],
        js ''erigir'', js ''construy'' @ [0xF3], js ''form'' @ [0xF3]]),
     (js ''nacer'',
       [js ''nacer'', js ''naci'' @ [0xF3], js ''nacido'',
        js ''nacimiento'', js ''nacieron'', js ''vino al mundo'',
        js ''nace'', js ''alumbramiento'']),
     (js ''casar'',
       [js ''casarse'', js ''matrimonio'', js ''se cas'' @ [0xF3],
        js ''uni'' @ [0xF3], js ''contrajo nupcias'', js ''boda'',
        js ''despos'' @ [0xF3]]),
     (js ''desaparecer'',
       [js ''desaparecer'', js ''desapareci'' @ [0xF3], js ''se desvaneci'' @ [0xF3],
        js ''se perdi'' @ [0xF3], js ''se esfum'' @ [0xF3]]),
     (js ''envejecer'',
       [js ''envejecer'', js ''envejeci'' @ [0xF3], js ''se volvi'' @ [0xF3] @ js '' viejo'',
        js ''se hizo mayor'', js ''envejece'']),
     (js ''amar'',
       [js ''amar'', js ''se enamor'' @ [0xF3], js ''amor'',
        js ''am'' @ [0xF3], js ''ador'' @ [0xF3], js ''querer'',
        js ''se quiso'']),
     (js ''partir'',
       [js ''partir'', js ''sali'' @ [0xF3], js ''se fue'',
        js ''abandon'' @ [0xF3], js ''march'' @ [0xF3], js ''huy'' @ [0xF3],
        js ''emigr'' @ [0xF3]]),
     (js ''regresar'',
       [js ''regresar'', js ''volvi'' @ [0xF3], js ''retorn'' @ [0xF3],
        js ''reapareci'' @ [0xF3], js ''regres'' @ [0xF3], js ''volvieron'']),
     (js ''escribir'',
       [js ''escribir'', js ''escribi'' @ [0xF3], js ''redact'' @ [0xF3],
        js ''document'' @ [0xF3], js ''anot'' @ [0xF3], js ''registr'' @ [0xF3]]),
     (js ''revelar'',
       [js ''revelar'', js ''cont'' @ [0xF3], js ''confes'' @ [0xF3],
        js ''descubri'' @ [0xF3], js ''admiti'' @ [0xF3], js ''explic'' @ [0xF3]]),
     (js ''asesinar'',
       [js ''matar'', js ''asesinar'', js ''fue asesinado'',
        js ''ejecutar'', js ''ajustici'' @ [0xF3], js ''elimin'' @ [0xF3]]),
     (js ''leer'',
       [js ''leer'', js ''ley'' @ [0xF3], js ''consult'' @ [0xF3],
        js ''revis'' @ [0xF3], js ''estudi'' @ [0xF3]]),
     (js ''profetizar'',
       [js ''profetizar'', js ''profetiz'' @ [0xF3], js ''predijo'',
        js ''adivin'' @ [0xF3], js ''vaticin'' @ [0xF3]]),
     (js ''imponer'',
       [js ''imponer'', js ''impuso'', js ''domin'' @ [0xF3],
        js ''trajo disciplina'', js ''orden'' @ [0xF3], js ''estableci'' @ [0xF3] @ js '' normas'']),
     (js ''enriquecer'',
       [js ''riqueza'', js ''hacerse rico'', js ''volverse rico'',
        js ''obtener riqueza'', js ''rico'', js ''ser rico'',
        js ''volvi'' @ [0xF3] @ js '' rico'', js ''hizo rico'', js ''enriquecer'',
        js ''enriquecerse'', js ''enriqueci'' @ [0xF3], js ''enriquecido'']),
     (js ''perder'',
       [js ''perder'', js ''perdi'' @ [0xF3], js ''perdido'',
        js ''p'' @ [0xE9] @ js ''rdida'', js ''se le fue'', js ''desapareci'' @ [0xF3],
        js ''se perdi'' @ [0xF3]]),
     (js ''crecer'',
       [js ''crecer'', js ''creci'' @ [0xF3], js ''crece'',
        js ''crecido'', js ''crecimiento'', js ''crecieron'',
        js ''expansi'' @ [0xF3] @ js ''n'', js ''desarrollo'']),
     (js ''huir'',
       [js ''huir'', js ''huy'' @ [0xF3], js ''escap'' @ [0xF3],
        js ''fug'' @ [0xF3], js ''se escap'' @ [0xF3], js ''se fug'' @ [0xF3]]),
     (js ''construir'',
       [js ''construir'', js ''construy'' @ [0xF3], js ''edific'' @ [0xF3],
        js ''levant'' @ [0xF3], js ''edificaron'']),
     (js ''destruir'',
       [js ''destruir'', js ''destruy'' @ [0xF3], js ''arras'' @ [0xF3],
        js ''derrib'' @ [0xF3], js ''se vino abajo'']),
     (js ''cambiar'',
       [js ''cambiar'', js ''cambi'' @ [0xF3], js ''transform'' @ [0xF3],
        js ''modific'' @ [0xF3], js ''mut'' @ [0xF3], js ''variar'',
        js ''evolucion'' @ [0xF3]]),
     (js ''sufrir'',
       [js ''sufrir'', js ''sufri'' @ [0xF3], js ''padeci'' @ [0xF3],
        js ''dolor'', js ''pen'' @ [0xF3], js ''afligi'' @ [0xF3]]),
     (js ''ganar'',
       [js ''ganar'', js ''gan'' @ [0xF3], js ''obtuvo'',
        js ''venci'' @ [0xF3], js ''triunf'' @ [0xF3], js ''logr'' @ [0xF3]]),
     (js ''perder'',
       [js ''perder'', js ''perdi'' @ [0xF3], js ''derrota'',
        js ''fracas'' @ [0xF3], js ''fue vencido'', js ''cay'' @ [0xF3]]),
     (js ''aparecer'',
       [js ''aparecer'', js ''apareci'' @ [0xF3], js ''surgi'' @ [0xF3],
        js ''se present'' @ [0xF3], js ''emergi'' @ [0xF3]]),
     (js ''visitar'',
       [js ''visitar'', js ''visit'' @ [0xF3], js ''vino a ver'',
        js ''lleg'' @ [0xF3] @ js '' a ver'', js ''se apareci'' @ [0xF3]]),
     (js ''recordar'',
       [js ''recordar'', js ''record'' @ [0xF3], js ''memoria'',
        js ''rememor'' @ [0xF3], js ''evoc'' @ [0xF3]]),
     (js ''olvidar'',
       [js ''olvidar'', js ''olvid'' @ [0xF3], js ''se le olvid'' @ [0xF3],
        js ''lo perdi'' @ [0xF3] @ js '' de mente'', js ''omiti'' @ [0xF3]]),
     (js ''confesar'',
       [js ''confesar'', js ''confes'' @ [0xF3], js ''admiti'' @ [0xF3],
        js ''revel'' @ [0xF3], js ''declar'' @ [0xF3]]),
     (js ''ver'',
       [js ''ver'', js ''vio'', js ''observ'' @ [0xF3],
        js ''mir'' @ [0xF3], js ''contempl'' @ [0xF3], js ''presenci'' @ [0xF3]]),
     (js ''o'' @ [0xED] @ js ''r'',
       [js ''o'' @ [0xED] @ js ''r'', js ''oy'' @ [0xF3], js ''escuch'' @ [0xF3],
        js ''percibi'' @ [0xF3], js ''atendi'' @ [0xF3]]),
     (js ''poseer'',
       [js ''poseer'', js ''tuvo'', js ''ten'' @ [0xED] @ js ''a'',
        js ''era due'' @ [0xF1] @ js ''o de'', js ''obtuvo'', js ''posey'' @ [0xF3]]),
     (js ''entregar'',
       [js ''entregar'', js ''entreg'' @ [0xF3], js ''cedi'' @ [0xF3],
        js ''dio'', js ''regal'' @ [0xF3]]),
     (js ''recibir'',
       [js ''recibir'', js ''recibi'' @ [0xF3], js ''obtuvo'',
        js ''acept'' @ [0xF3], js ''fue dado'']),
     (js ''haber'',
       [js ''haber'', js ''hubo'', js ''hay'',
        js ''existi'' @ [0xF3], js ''exist'' @ [0xED] @ js ''a'', js ''existieron'',
        js ''ocurri'' @ [0xF3], js ''aconteci'' @ [0xF3]]),
     (js ''tener'',
       [js ''tener'', js ''ten'' @ [0xED] @ js ''a'', js ''tuvo'',
        js ''han tenido'', js ''hubo'', js ''pose'' @ [0xED] @ js ''a'',
        js ''contaba con'', js ''mantuvo'', js ''dispon'' @ [0xED] @ js ''a de'']),
     (js ''comerciar'',
       [js ''comerciar'', js ''comerci'' @ [0xF3], js ''vendi'' @ [0xF3],
        js ''intercambi'' @ [0xF3], js ''negoci'' @ [0xF3], js ''trans'' @ [0xF3],
        js ''trueque'' @ [0xF3], js ''trafic'' @ [0xF3], js ''hizo negocios'']),
     (js ''casar'',
       [js ''casarse'', js ''se cas'' @ [0xF3], js ''contrajo matrimonio'',
        js ''contrajo nupcias'', js ''matrimonio'', js ''boda'',
        js ''se uni'' @ [0xF3], js ''se despos'' @ [0xF3], js ''despos'' @ [0xF3],
        js ''celebr'' @ [0xF3] @ js '' su boda'']),
     (js ''existir'',
       [js ''existir'', js ''exist'' @ [0xED] @ js ''a'', js ''existi'' @ [0xF3],
        js ''hubo'', js ''hay'', js ''se encontraba'',
        js ''se hallaba'', js ''estaba presente'', js ''permanec'' @ [0xED] @ js ''a'',
        js ''subsist'' @ [0xED] @ js ''a'']),
     (js ''cambiar'',
       [js ''cambiar'', js ''cambio'', js ''cambi'' @ [0xF3],
        js ''modificar'', js ''transformar'', js ''modific'' @ [0xF3],
        js ''transform'' @ [0xF3], js ''fue modificado'', js ''variar'',
        js ''variaci'' @ [0xF3] @ js ''n'', js ''se transform'' @ [0xF3]])]"

text \<open>An object literal is evaluated property by property: a key that is already
  there keeps its place and takes the new value, a new key goes to the end.
  \<^verbatim>\<open>Object.entries\<close> lists the properties in that order.\<close>

fun setProperty :: "(jsstring \<times> 'v) list \<Rightarrow> jsstring \<Rightarrow> 'v \<Rightarrow> (jsstring \<times> 'v) list" where
  "setProperty [] k v = [(k, v)]"
| "setProperty ((k', v') # obj) k v =
     (if k' = k then (k', v) # obj else (k', v') # setProperty obj k v)"

definition objectLiteral :: "(jsstring \<times> 'v) list \<Rightarrow> (jsstring \<times> 'v) list" where
  "objectLiteral props = foldl (\<lambda>obj (k, v). setProperty obj k v) [] props"

definition verbosClave :: "(jsstring \<times> jsstring list) list" where
  "verbosClave = objectLiteral verbosClaveLiteral"

text \<open>Step 7 of \<^verbatim>\<open>analizarPregunta\<close>. \<open>verbosDeFormas\<close> is the inner loop over the
  forms of one intent: at the first form whose pattern is found in the text it pushes
  the patterns of all forms of the intent and breaks.\<close>

definition formaRegExp :: "jsstring \<Rightarrow> regexp" where
  "formaRegExp f = wordRegExp (escapeRegex (limpiarTexto f))"

fun verbosDeFormas :: "jsstring \<Rightarrow> jsstring list \<Rightarrow> jsstring list \<Rightarrow> regexp list" where
  "verbosDeFormas textoRawNorm formas [] = []"
| "verbosDeFormas textoRawNorm formas (forma # resto) =
     (if reTest (formaRegExp forma) textoRawNorm then map formaRegExp formas
      else verbosDeFormas textoRawNorm formas resto)"

fun verbosDeEntradas :: "jsstring \<Rightarrow> (jsstring \<times> jsstring list) list \<Rightarrow> regexp list" where
  "verbosDeEntradas textoRawNorm [] = []"
| "verbosDeEntradas textoRawNorm ((clave, formas) # entradas) =
     verbosDeFormas textoRawNorm formas formas @ verbosDeEntradas textoRawNorm entradas"

definition detectarVerbos :: "jsstring \<Rightarrow> regexp list" where
  "detectarVerbos pregunta = verbosDeEntradas (limpiarTexto pregunta) verbosClave"

subsection \<open>The document store\<close>

text \<open>The collections the pipeline reads, with the fields it uses. An \<^verbatim>\<open>ObjectId\<close> is a
  natural number; an optional field is an option. The schemas of \<^verbatim>\<open>Lugar\<close> and
  \<^verbatim>\<open>Objeto\<close> are read off the queries.\<close>

record personaje =
  p_id :: nat
  p_nombre :: jsstring

record lugar =
  l_id :: nat
  l_nombre :: jsstring

record objeto =
  o_id :: nat
  o_nombre :: jsstring
  evento_relacionado :: "nat option"

record evento =
  e_id :: nat
  nombre :: jsstring
  descripcion :: "jsstring option"
  personajes_involucrados :: "nat list"
  lugar_relacionado :: "nat option"
  generacion_relacionada :: "nat option"

record capituloDoc =
  numero :: nat
  eventos :: "nat list"

text \<open>Every \<^verbatim>\<open>await\<close> on the store is a read that can be rejected. The reads of one
  request are told apart by the place in the source that issues them, and \<open>falla\<close>
  says which of them are rejected.\<close>

datatype lectura =
    AtajoCapitulo | CargarPersonajes | CargarLugares | CargarObjetos | EventosFuzzy
  | BuscarCapitulo | PoblarCapitulo | PoblarFuzzy
  | ResolverPersonajes | ResolverLugares | ResolverObjetos
  | EventosExistencia | EventosFinales
  | ConsultaInicial | FallbackObjetos | FallbackPersonajes | FallbackLugares

datatype error = ErrorBD

record store =
  colPersonajes :: "personaje list"
  colLugares :: "lugar list"
  colObjetos :: "objeto list"
  colEventos :: "evento list"
  colCapitulos :: "capituloDoc list"
  falla :: "lectura \<Rightarrow> bool"

definition leer :: "store \<Rightarrow> lectura \<Rightarrow> 'a \<Rightarrow> error + 'a" where
  "leer st l v = (if falla st l then Inl ErrorBD else Inr v)"

text \<open>\<^verbatim>\<open>await\<close> inside an \<^verbatim>\<open>async\<close> function: a rejection leaves the function.\<close>

definition esperar :: "error + 'a \<Rightarrow> ('a \<Rightarrow> error + 'b) \<Rightarrow> error + 'b" where
  "esperar m k = (case m of Inl e \<Rightarrow> Inl e | Inr v \<Rightarrow> k v)"

subsection \<open>buscarEventoSimilar\<close>

text \<open>\<^verbatim>\<open>calcularScore(a, b)\<close>. A \<^verbatim>\<open>Set\<close> keeps each word once. The quotient of the two
  counts is a rational number here; the double that JavaScript computes compares with
  \<^verbatim>\<open>0.2\<close> the same way as long as the counts stay below \<open>2^50\<close>.\<close>

definition calcularScore :: "jsstring \<Rightarrow> jsstring \<Rightarrow> rat" where
  "calcularScore a b =
     (let palabrasA = remdups (splitWs a);
          palabrasB = remdups (splitWs b);
          interseccion = filter (\<lambda>p. p \<in> set palabrasB) palabrasA
      in of_nat (length interseccion) / of_nat (max (length palabrasA) 1))"

definition combinado :: "evento \<Rightarrow> jsstring" where
  "combinado e = limpiarTexto (nombre e @ [0x20] @ (case descripcion e of None \<Rightarrow> [] | Some d \<Rightarrow> d))"

text \<open>The ranking after the events are read: \<^verbatim>\<open>map\<close>, the stable
  \<^verbatim>\<open>sort((a, b) => b.score - a.score)\<close>, and the test of \<^verbatim>\<open>candidatos[0]\<close>.\<close>

definition candidatos :: "jsstring \<Rightarrow> evento list \<Rightarrow> (evento \<times> rat) list" where
  "candidatos texto evs = sort_key (\<lambda>c. - snd c) (map (\<lambda>e. (e, calcularScore texto (combinado e))) evs)"

definition mejorCandidato :: "jsstring \<Rightarrow> evento list \<Rightarrow> evento option" where
  "mejorCandidato texto evs =
     (case candidatos texto evs of
        [] \<Rightarrow> None
      | primero # _ \<Rightarrow> if snd primero > 2 / 10 then Some (fst primero) else None)"

text \<open>\<^verbatim>\<open>buscarEventoSimilar(pregunta)\<close>: a rejected read is caught and answered with
  \<^verbatim>\<open>null\<close>.\<close>

definition buscarEventoSimilar :: "(jsstring \<Rightarrow> jsstring) \<Rightarrow> store \<Rightarrow> jsstring \<Rightarrow> evento option" where
  "buscarEventoSimilar nlp st pregunta =
     (let texto = normalizar nlp pregunta in
      case leer st EventosFuzzy (colEventos st) of
        Inl _ \<Rightarrow> None
      | Inr evs \<Rightarrow> if evs = [] then None else mejorCandidato texto evs)"

subsection \<open>extraerAlias\<close>

text \<open>\<^verbatim>\<open>.*?\)\<close> from just behind an opening parenthesis: the text up to the first
  closing parenthesis (\<open>0x29\<close>) and the text behind it, unless a line terminator comes
  first.\<close>

fun hastaCierre :: "jsstring \<Rightarrow> (jsstring \<times> jsstring) option" where
  "hastaCierre [] = None"
| "hastaCierre (c # cs) =
     (if c = 0x29 then Some ([], cs)
      else if isLineTerminator c then None
      else map_option (\<lambda>(a, r). (c # a, r)) (hastaCierre cs))"

text \<open>\<^verbatim>\<open>nombreCompleto.match(/\((.*?)\)/)\<close>: the group of the leftmost match.\<close>

fun primerParentesis :: "jsstring \<Rightarrow> jsstring option" where
  "primerParentesis [] = None"
| "primerParentesis (c # cs) =
     (if c = 0x28 then (case hastaCierre cs of Some (a, r) \<Rightarrow> Some a | None \<Rightarrow> primerParentesis cs)
      else primerParentesis cs)"

lemma hastaCierre_length: "hastaCierre s = Some (a, r) \<Longrightarrow> length r < length s"
  by (induction s arbitrary: a r) (auto split: if_splits)

lemma cierre_decreases:
  assumes "dropWhile isSpace (c # cs) = d # ds" and "hastaCierre ds = Some (a, r)"
  shows "length (dropWhile isSpace r) < length (c # cs)"
proof -
  have "length (d # ds) \<le> length (c # cs)"
    unfolding assms(1) [symmetric] by (rule length_dropWhile_le)
  moreover have "length r < length ds"
    using assms(2) by (rule hastaCierre_length)
  moreover have "length (dropWhile isSpace r) \<le> length r"
    by (rule length_dropWhile_le)
  ultimately show ?thesis by simp
qed

text \<open>\<^verbatim>\<open>nombreCompleto.replace(/\s*\(.*?\)\s*/g, '')\<close>: at each position the greedy
  \<^verbatim>\<open>\s*\<close> takes the run of white space that starts there; a match needs a parenthesis
  that closes right behind the run, and takes the white space behind it too.\<close>

function quitarParentesis :: "jsstring \<Rightarrow> jsstring" where
  "quitarParentesis [] = []"
| "quitarParentesis (c # cs) =
     (case dropWhile isSpace (c # cs) of
        [] \<Rightarrow> c # quitarParentesis cs
      | d # ds \<Rightarrow>
          if d = 0x28 then
            (case hastaCierre ds of
               Some (a, r) \<Rightarrow> quitarParentesis (dropWhile isSpace r)
             | None \<Rightarrow> c # quitarParentesis cs)
          else c # quitarParentesis cs)"
  by pat_completeness auto
termination
proof (relation "measure length", goal_cases)
  case (4 c cs d ds x a r)
  then show ?case
    using cierre_decreases [of c cs d ds a r] by simp
qed simp_all

record aliasInfo =
  ea_nombre :: jsstring
  ea_alias :: "jsstring option"
  ea_original :: jsstring

definition extraerAlias :: "jsstring \<Rightarrow> aliasInfo" where
  "extraerAlias nombreCompleto =
     \<lparr>ea_nombre = trim (limpiarTexto (quitarParentesis nombreCompleto)),
      ea_alias = map_option limpiarTexto (primerParentesis nombreCompleto),
      ea_original = nombreCompleto\<rparr>"

subsection \<open>analizarPregunta\<close>

text \<open>\<^verbatim>\<open>/cap[i\<acute>i]tulo\s*(\d+)/i\<close> (the class holds \<^verbatim>\<open>i\<close> and i with acute accent,
  \<open>0xED\<close>): the digits of the leftmost match. \<open>consumir\<close> matches the letters one
  code unit after the other.\<close>

definition letrasCapitulo :: "jsstring list" where
  "letrasCapitulo = [js ''c'', js ''a'', js ''p'', [0x69, 0xED], js ''t'', js ''u'', js ''l'', js ''o'']"

fun consumir :: "jsstring list \<Rightarrow> jsstring \<Rightarrow> jsstring option" where
  "consumir [] s = Some s"
| "consumir (clase # clases) [] = None"
| "consumir (clase # clases) (d # ds) =
     (if list_ex (\<lambda>c. sameCU True c d) clase then consumir clases ds else None)"

definition capituloAqui :: "jsstring \<Rightarrow> jsstring option" where
  "capituloAqui s =
     (case consumir letrasCapitulo s of
        None \<Rightarrow> None
      | Some r \<Rightarrow> (let ds = takeWhile isDigit (dropWhile isSpace r) in if ds = [] then None else Some ds))"

fun matchCapitulo :: "jsstring \<Rightarrow> jsstring option" where
  "matchCapitulo [] = None"
| "matchCapitulo (c # cs) =
     (case capituloAqui (c # cs) of Some ds \<Rightarrow> Some ds | None \<Rightarrow> matchCapitulo cs)"

text \<open>\<^verbatim>\<open>parseInt\<close> on a string of decimal digits: the number the digits write.
  JavaScript returns it as a double, which is this number only below \<open>2^53\<close>; from
  there on the double is rounded, so a statement about the number returned carries the
  bound \<open>parseInt ds < 2^53\<close>. Whether the number is \<open>0\<close> (the one falsy value) does
  not depend on the rounding.\<close>

definition parseInt :: "jsstring \<Rightarrow> nat" where
  "parseInt ds = foldl (\<lambda>n d. 10 * n + nat (d - 48)) 0 ds"

text \<open>A string or \<^verbatim>\<open>null\<close> as a condition: \<^verbatim>\<open>null\<close> and the empty string are falsy.\<close>

definition verdadero :: "jsstring option \<Rightarrow> bool" where
  "verdadero t = (case t of None \<Rightarrow> False | Some x \<Rightarrow> x \<noteq> [])"

record analisis =
  capitulo :: "nat option"
  terminoExistencia :: "jsstring option"
  regexVerbos :: "regexp list"
  personajes :: "jsstring list"
  lugares :: "jsstring list"
  objetos :: "jsstring list"
  fuzzy :: "evento option"

text \<open>Steps 4 to 6: the filters over the loaded entities.\<close>

definition coincidePersonaje :: "jsstring \<Rightarrow> personaje \<Rightarrow> bool" where
  "coincidePersonaje textoNorm p =
     (let ea = extraerAlias (p_nombre p) in
      matchFlexible (ea_nombre ea) textoNorm
      \<or> (verdadero (ea_alias ea) \<and> matchFlexible (the (ea_alias ea)) textoNorm))"

definition detectarPersonajes :: "jsstring \<Rightarrow> personaje list \<Rightarrow> jsstring list" where
  "detectarPersonajes textoNorm personajesBD =
     map (\<lambda>p. trim (p_nombre p)) (filter (coincidePersonaje textoNorm) personajesBD)"

definition detectarLugares :: "jsstring \<Rightarrow> lugar list \<Rightarrow> jsstring list" where
  "detectarLugares textoNorm lugaresBD =
     map fst (filter (\<lambda>item. matchFlexible (snd item) textoNorm)
       (map (\<lambda>l. (l_nombre l, limpiarTexto (l_nombre l))) lugaresBD))"

definition detectarObjetos :: "jsstring \<Rightarrow> objeto list \<Rightarrow> jsstring list" where
  "detectarObjetos textoNorm objetosBD =
     map fst (filter (\<lambda>item. matchFlexible (snd item) textoNorm)
       (map (\<lambda>ob. (o_nombre ob, limpiarTexto (o_nombre ob))) objetosBD))"

text \<open>\<^verbatim>\<open>analizarPregunta(pregunta)\<close>. The three loads are awaited outside any
  \<^verbatim>\<open>try\<close>, so a rejected load rejects the analysis.\<close>

definition analizarPregunta :: "(jsstring \<Rightarrow> jsstring) \<Rightarrow> store \<Rightarrow> jsstring \<Rightarrow> error + analisis" where
  "analizarPregunta nlp st pregunta =
     (let textoNorm = normalizar nlp pregunta;
          capMatch = matchCapitulo textoNorm;
          cap = map_option parseInt capMatch;
          term = detectarExistencia pregunta
      in
      esperar (leer st CargarPersonajes (colPersonajes st)) (\<lambda>personajesBD.
      esperar (leer st CargarLugares (colLugares st)) (\<lambda>lugaresBD.
      esperar (leer st CargarObjetos (colObjetos st)) (\<lambda>objetosBD.
        Inr \<lparr>capitulo = cap,
             terminoExistencia = term,
             regexVerbos = detectarVerbos pregunta,
             personajes = detectarPersonajes textoNorm personajesBD,
             lugares = detectarLugares textoNorm lugaresBD,
             objetos = detectarObjetos textoNorm objetosBD,
             fuzzy = (if \<not> verdadero term then buscarEventoSimilar nlp st pregunta else None)\<rparr>))))"

section \<open>routes/preguntas.js\<close>

text \<open>The answers of the handler: a JSON body with status 200, one of the error
  statuses, or no answer at all when an \<^verbatim>\<open>await\<close> outside the \<^verbatim>\<open>try\<close> block is
  rejected and the promise of the handler rejects with it. The field \<^verbatim>\<open>capitulo\<close> of
  a body is a number or one of three strings.\<close>

datatype etiqueta = Numero nat | Similar | Existencia | Todos

record cuerpoJson =
  r_capitulo :: etiqueta
  termino :: "jsstring option"
  resultados :: "evento list"

datatype respuesta = Json cuerpoJson | Estado400 | Estado404 | Estado500 | Rechazada

text \<open>The queries on the store. \<^verbatim>\<open>populate\<close> on the events of a chapter replaces
  each reference by its document and drops a reference without one; on an event it
  joins the characters, the place and the generation and leaves the list of events as
  it is, so it appears only as part of the read.\<close>

definition findOneCapitulo :: "store \<Rightarrow> nat \<Rightarrow> capituloDoc option" where
  "findOneCapitulo st n = find (\<lambda>c. numero c = n) (colCapitulos st)"

definition poblarEventos :: "store \<Rightarrow> nat list \<Rightarrow> evento list" where
  "poblarEventos st ids = List.map_filter (\<lambda>i. find (\<lambda>e. e_id e = i) (colEventos st)) ids"

text \<open>\<^verbatim>\<open>{ nombre: { $in: nombres.map(p => new RegExp(`^${escapeRegex(p)}$`, 'i')) } }\<close>.
  The store evaluates these patterns; the model gives them the meaning they have in
  JavaScript.\<close>

definition nombreEn :: "jsstring list \<Rightarrow> jsstring \<Rightarrow> bool" where
  "nombreEn nombres nom = list_ex (\<lambda>p. reTest (wholeRegExp (escapeRegex p)) nom) nombres"

text \<open>The local \<^verbatim>\<open>normalizarTexto\<close> of the existence branch: the steps of
  \<^verbatim>\<open>limpiarTexto\<close> and then \<^verbatim>\<open>replace(/[^\w\s]/g, '')\<close>.\<close>

definition normalizarTexto :: "jsstring \<Rightarrow> jsstring" where
  "normalizarTexto str =
     filter (\<lambda>c. isWordChar c \<or> isSpace c)
       (filter (\<lambda>c. \<not> isCombiningMark c) (normalizeNFD (toLowerCase str)))"

text \<open>The identifiers behind the detected names.\<close>

definition resolverIds :: "store \<Rightarrow> analisis \<Rightarrow> error + (nat list \<times> nat list \<times> nat list)" where
  "resolverIds st an =
     esperar (if personajes an \<noteq> []
              then esperar (leer st ResolverPersonajes
                     (filter (\<lambda>d. nombreEn (personajes an) (p_nombre d)) (colPersonajes st)))
                     (\<lambda>docsP. Inr (map p_id docsP))
              else Inr []) (\<lambda>personajeIds.
     esperar (if lugares an \<noteq> []
              then esperar (leer st ResolverLugares
                     (filter (\<lambda>d. nombreEn (lugares an) (l_nombre d)) (colLugares st)))
                     (\<lambda>docsL. Inr (map l_id docsL))
              else Inr []) (\<lambda>lugarIds.
     esperar (if objetos an \<noteq> []
              then esperar (leer st ResolverObjetos
                     (filter (\<lambda>d. nombreEn (objetos an) (o_nombre d)) (colObjetos st)))
                     (\<lambda>docsO. Inr (List.map_filter evento_relacionado docsO))
              else Inr []) (\<lambda>eventosDesdeObjetos.
       Inr (personajeIds, lugarIds, eventosDesdeObjetos))))"

text \<open>The existence branch.\<close>

definition coincideTermino :: "jsstring \<Rightarrow> evento \<Rightarrow> bool" where
  "coincideTermino term e =
     (let nombreNorm = normalizarTexto (nombre e);
          descNorm = normalizarTexto (case descripcion e of None \<Rightarrow> [] | Some d \<Rightarrow> d)
      in jsIncludes nombreNorm term \<or> jsIncludes descNorm term)"

definition ramaExistencia :: "store \<Rightarrow> jsstring \<Rightarrow> error + respuesta" where
  "ramaExistencia st terminoEx =
     (let term = normalizarTexto terminoEx in
      esperar (leer st EventosExistencia (colEventos st)) (\<lambda>todosEventos.
        let eventosCoincidentes = filter (coincideTermino term) todosEventos in
        esperar (leer st EventosFinales
                   (filter (\<lambda>e. e_id e \<in> set (map e_id eventosCoincidentes)) (colEventos st)))
          (\<lambda>eventosFinales.
             Inr (Json \<lparr>r_capitulo = Existencia, termino = Some terminoEx, resultados = eventosFinales\<rparr>))))"

text \<open>The advanced filter: the conjunction of the clauses whose input is not empty.\<close>

definition coincideVerbo :: "regexp list \<Rightarrow> evento \<Rightarrow> bool" where
  "coincideVerbo rs e =
     list_ex (\<lambda>r. (case descripcion e of None \<Rightarrow> False
                     | Some d \<Rightarrow> reTest \<lparr>source = source r, flags = js ''i''\<rparr> d)
                 \<or> reTest \<lparr>source = source r, flags = js ''i''\<rparr> (nombre e)) rs"

definition involucra :: "nat list \<Rightarrow> evento \<Rightarrow> bool" where
  "involucra personajeIds e = list_ex (\<lambda>p. p \<in> set personajeIds) (personajes_involucrados e)"

definition ocurreEn :: "nat list \<Rightarrow> evento \<Rightarrow> bool" where
  "ocurreEn lugarIds e = (case lugar_relacionado e of None \<Rightarrow> False | Some l \<Rightarrow> l \<in> set lugarIds)"

definition cumpleFiltro :: "regexp list \<Rightarrow> nat list \<Rightarrow> nat list \<Rightarrow> nat list \<Rightarrow> evento \<Rightarrow> bool" where
  "cumpleFiltro rs personajeIds lugarIds eventosDesdeObjetos e \<longleftrightarrow>
     (rs = [] \<or> coincideVerbo rs e)
     \<and> (personajeIds = [] \<or> involucra personajeIds e)
     \<and> (lugarIds = [] \<or> ocurreEn lugarIds e)
     \<and> (eventosDesdeObjetos = [] \<or> e_id e \<in> set eventosDesdeObjetos)"

text \<open>The first query and the fallbacks, to the final answer.\<close>

definition consultaAvanzada ::
  "store \<Rightarrow> regexp list \<Rightarrow> nat list \<Rightarrow> nat list \<Rightarrow> nat list \<Rightarrow> error + respuesta" where
  "consultaAvanzada st rs personajeIds lugarIds eventosDesdeObjetos =
     esperar (leer st ConsultaInicial
                (filter (cumpleFiltro rs personajeIds lugarIds eventosDesdeObjetos) (colEventos st)))
       (\<lambda>iniciales.
     esperar (if iniciales = [] \<and> eventosDesdeObjetos \<noteq> [] then
                leer st FallbackObjetos (filter (\<lambda>e. e_id e \<in> set eventosDesdeObjetos) (colEventos st))
              else if iniciales = [] \<and> personajeIds \<noteq> [] then
                leer st FallbackPersonajes (filter (involucra personajeIds) (colEventos st))
              else if iniciales = [] \<and> lugarIds \<noteq> [] then
                leer st FallbackLugares (filter (ocurreEn lugarIds) (colEventos st))
              else Inr iniciales)
       (\<lambda>finales. Inr (Json \<lparr>r_capitulo = Todos, termino = None, resultados = finales\<rparr>)))"

text \<open>The \<^verbatim>\<open>try\<close> block of the handler.\<close>

definition cuerpo :: "store \<Rightarrow> analisis \<Rightarrow> error + respuesta" where
  "cuerpo st an =
     (if capitulo an \<noteq> None \<and> capitulo an \<noteq> Some 0 then
        esperar (leer st BuscarCapitulo (findOneCapitulo st (the (capitulo an)))) (\<lambda>capDoc.
          case capDoc of
            None \<Rightarrow> Inr Estado404
          | Some c \<Rightarrow>
              esperar (leer st PoblarCapitulo (poblarEventos st (eventos c))) (\<lambda>evs.
                Inr (Json \<lparr>r_capitulo = Numero (the (capitulo an)), termino = None, resultados = evs\<rparr>)))
      else if fuzzy an \<noteq> None \<and> \<not> verdadero (terminoExistencia an) then
        esperar (leer st PoblarFuzzy (the (fuzzy an))) (\<lambda>f.
          Inr (Json \<lparr>r_capitulo = Similar, termino = None, resultados = [f]\<rparr>))
      else
        esperar (resolverIds st an) (\<lambda>(personajeIds, lugarIds, eventosDesdeObjetos).
          if verdadero (terminoExistencia an) then ramaExistencia st (the (terminoExistencia an))
          else if regexVerbos an = [] \<and> personajeIds = [] \<and> lugarIds = [] \<and> eventosDesdeObjetos = [] then
            Inr (Json \<lparr>r_capitulo = Todos, termino = None, resultados = []\<rparr>)
          else consultaAvanzada st (regexVerbos an) personajeIds lugarIds eventosDesdeObjetos))"

text \<open>\<^verbatim>\<open>router.get('/', ...)\<close>. \<open>q0\<close> is the query parameter \<^verbatim>\<open>q\<close>, \<open>None\<close> when the
  request has none.\<close>

definition preguntas :: "(jsstring \<Rightarrow> jsstring) \<Rightarrow> store \<Rightarrow> jsstring option \<Rightarrow> respuesta" where
  "preguntas nlp st q0 =
     (case map_option trim q0 of
        None \<Rightarrow> Estado400
      | Some q \<Rightarrow>
          if q = [] then Estado400
          else
            (case matchCapitulo q of
               Some ds \<Rightarrow>
                 (let capNum = parseInt ds in
                  case leer st AtajoCapitulo
                         (map_option (\<lambda>c. poblarEventos st (eventos c)) (findOneCapitulo st capNum)) of
                    Inl _ \<Rightarrow> Rechazada
                  | Inr None \<Rightarrow> Json \<lparr>r_capitulo = Numero capNum, termino = None, resultados = []\<rparr>
                  | Inr (Some evs) \<Rightarrow> Json \<lparr>r_capitulo = Numero capNum, termino = None, resultados = evs\<rparr>)
             | None \<Rightarrow>
                 (case analizarPregunta nlp st q of
                    Inl _ \<Rightarrow> Rechazada
                  | Inr an \<Rightarrow>
                      (case cuerpo st an of
                         Inl _ \<Rightarrow> Estado500
                       | Inr r \<Rightarrow> r))))"

section \<open>Properties of the model\<close>

subsection \<open>Folding on Latin-1 text\<close>

text \<open>On a string of code units below \<open>0x100\<close> the three steps of \<^verbatim>\<open>limpiarTexto\<close>
  act code unit by code unit: every decomposition is a base letter and one mark, so
  there is nothing to reorder, and the mark is removed.\<close>

definition latin1 :: "jsstring \<Rightarrow> bool" where
  "latin1 s \<longleftrightarrow> (\<forall>c\<in>set s. 0 \<le> c \<and> c < 0x100)"

definition foldCU :: "int \<Rightarrow> int" where
  "foldCU c = hd (decompose (lowerCU c))"

definition entryOk :: "int \<times> jsstring \<Rightarrow> bool" where
  "entryOk e = (case snd e of
       [b, m] \<Rightarrow> 0 \<le> b \<and> b < 0x80 \<and> isCombiningMark m \<and> 0xC0 \<le> fst e \<and> fst e < 0x100
                 \<and> fst e \<noteq> 0xD7 \<and> fst e \<noteq> 0xDF \<and> (0xE0 \<le> fst e \<longrightarrow> 0x61 \<le> b \<and> b \<le> 0x7A)
     | _ \<Rightarrow> False)"

lemma decompose_code [code]:
  "decompose c = (if c < 0xC0 then [c] else case map_of tablaNFD c of Some d \<Rightarrow> d | None \<Rightarrow> [c])"
  by (simp add: decompose_def tablaNFD_def)

lemma ccc_code [code]: "ccc c = (if c < 0x300 then 0 else cccIn cccTable c)"
  by (simp add: ccc_def cccTable_def)

lemma tablaNFD_ok: "list_all entryOk tablaNFD"
  by code_simp

lemma tablaNFD_entry: "map_of tablaNFD c = Some d \<Longrightarrow> entryOk (c, d)"
  using tablaNFD_ok by (auto simp: list_all_iff dest: map_of_SomeD)

lemma ccc_low: "c < 0x300 \<Longrightarrow> ccc c = 0"
  by (simp add: ccc_def cccTable_def)

lemma decompose_cases:
  "decompose c = [c] \<and> map_of tablaNFD c = None
   \<or> (\<exists>b m. decompose c = [b, m] \<and> 0 \<le> b \<and> b < 0x80 \<and> isCombiningMark m \<and> 0xC0 \<le> c \<and> c < 0x100
        \<and> c \<noteq> 0xD7 \<and> c \<noteq> 0xDF \<and> (0xE0 \<le> c \<longrightarrow> 0x61 \<le> b \<and> b \<le> 0x7A))"
proof (cases "map_of tablaNFD c")
  case None
  then show ?thesis by (simp add: decompose_def)
next
  case (Some d)
  from tablaNFD_entry [OF Some] show ?thesis
    by (auto simp: entryOk_def decompose_def Some split: list.splits)
qed

lemma decompose_low: "c < 0xC0 \<Longrightarrow> decompose c = [c]"
  using decompose_cases [of c] by auto

lemma hd_decompose_starter: "c < 0x100 \<Longrightarrow> ccc (hd (decompose c)) = 0"
  using decompose_cases [of c] by (auto simp: ccc_low)

lemma insertMark_starter: "r = [] \<or> ccc (hd r) = 0 \<Longrightarrow> insertMark m r = m # r"
  by (cases r) auto

lemma reorder_decomposed:
  "\<forall>c\<in>set s. c < 0x100 \<Longrightarrow> reorder (concat (map decompose s)) = concat (map decompose s)"
proof (induction s)
  case Nil
  then show ?case by simp
next
  case (Cons c s)
  let ?r = "concat (map decompose s)"
  have ih: "reorder ?r = ?r" using Cons by simp
  have hr: "?r = [] \<or> ccc (hd ?r) = 0"
  proof (cases s)
    case Nil then show ?thesis by simp
  next
    case (Cons d t)
    have "decompose d \<noteq> []" using decompose_cases [of d] by auto
    moreover have "ccc (hd (decompose d)) = 0" using Cons.prems Cons hd_decompose_starter [of d] by simp
    ultimately show ?thesis using Cons by simp
  qed
  have ins: "\<And>m. insertMark m ?r = m # ?r"
    using hr by (rule insertMark_starter)
  have c0: "c < 0x100" using Cons.prems by simp
  from decompose_cases [of c] show ?case
  proof
    assume "decompose c = [c] \<and> map_of tablaNFD c = None"
    then show ?thesis using ih ins by simp
  next
    assume "\<exists>b m. decompose c = [b, m] \<and> 0 \<le> b \<and> b < 0x80 \<and> isCombiningMark m \<and> 0xC0 \<le> c \<and> c < 0x100
        \<and> c \<noteq> 0xD7 \<and> c \<noteq> 0xDF \<and> (0xE0 \<le> c \<longrightarrow> 0x61 \<le> b \<and> b \<le> 0x7A)"
    then obtain b m where d: "decompose c = [b, m]" and b: "b < 0x80" by blast
    have "ccc b = 0" using b by (simp add: ccc_low)
    then show ?thesis using d ih ins by simp
  qed
qed

lemma strip_decomposed:
  "\<forall>c\<in>set s. c < 0x100 \<Longrightarrow>
     filter (\<lambda>c. \<not> isCombiningMark c) (concat (map decompose s)) = map (\<lambda>c. hd (decompose c)) s"
proof (induction s)
  case Nil
  then show ?case by simp
next
  case (Cons c s)
  have "filter (\<lambda>c. \<not> isCombiningMark c) (decompose c) = [hd (decompose c)]"
    using decompose_cases [of c] Cons.prems by (auto simp: isCombiningMark_def)
  then show ?case using Cons by simp
qed

lemma lowerCU_bound: "c < 0x100 \<Longrightarrow> lowerCU c < 0x100"
  by (auto simp: lowerCU_def)

lemma limpiarTexto_latin1: "latin1 s \<Longrightarrow> limpiarTexto s = map foldCU s"
proof -
  assume l: "latin1 s"
  have "\<forall>c\<in>set (map lowerCU s). c < 0x100"
    using l by (auto simp: latin1_def lowerCU_bound)
  then have "limpiarTexto s = map (\<lambda>c. hd (decompose c)) (map lowerCU s)"
    unfolding limpiarTexto_def normalizeNFD_def toLowerCase_def
    by (simp only: reorder_decomposed strip_decomposed)
  then show ?thesis by (simp add: foldCU_def)
qed

lemma lowerCU_idem: "lowerCU (lowerCU c) = lowerCU c"
  by (auto simp: lowerCU_def)

lemma foldCU_range: "0 \<le> c \<Longrightarrow> c < 0x100 \<Longrightarrow> 0 \<le> foldCU c \<and> foldCU c < 0x100"
  using decompose_cases [of "lowerCU c"] by (auto simp: foldCU_def lowerCU_def split: if_splits)

lemma foldCU_idem: "foldCU (foldCU c) = foldCU c"
proof -
  let ?l = "lowerCU c"
  from decompose_cases [of ?l] show ?thesis
  proof
    assume "decompose ?l = [?l] \<and> map_of tablaNFD ?l = None"
    then show ?thesis by (simp add: foldCU_def lowerCU_idem)
  next
    assume "\<exists>b m. decompose ?l = [b, m] \<and> 0 \<le> b \<and> b < 0x80 \<and> isCombiningMark m \<and> 0xC0 \<le> ?l \<and> ?l < 0x100
        \<and> ?l \<noteq> 0xD7 \<and> ?l \<noteq> 0xDF \<and> (0xE0 \<le> ?l \<longrightarrow> 0x61 \<le> b \<and> b \<le> 0x7A)"
    then obtain b m where d: "decompose ?l = [b, m]" and l: "0xC0 \<le> ?l" "?l \<noteq> 0xD7" "?l \<noteq> 0xDF"
      and b: "0xE0 \<le> ?l \<longrightarrow> 0x61 \<le> b \<and> b \<le> 0x7A" by blast
    have "0xE0 \<le> ?l" using l by (auto simp: lowerCU_def split: if_splits)
    then have bb: "0x61 \<le> b \<and> b \<le> 0x7A" using b by simp
    then have "lowerCU b = b" by (auto simp: lowerCU_def)
    moreover have "decompose b = [b]" using bb by (simp add: decompose_low)
    ultimately show ?thesis using d by (simp add: foldCU_def)
  qed
qed

lemma latin1_limpiarTexto: "latin1 s \<Longrightarrow> latin1 (limpiarTexto s)"
  using foldCU_range by (auto simp: limpiarTexto_latin1) (auto simp: latin1_def)

subsection \<open>Rejected reads\<close>

text \<open>\<open>sinFallas st\<close> is the store \<open>st\<close> with every read answered. A stage of
  the handler that answers under \<open>st\<close> gives the same answer under \<open>sinFallas st\<close>:
  it awaited no rejected read.\<close>


definition sinFallas :: "store \<Rightarrow> store" where
  "sinFallas st = st\<lparr>falla := \<lambda>_. False\<rparr>"

lemma sinFallas_simps [simp]:
  "colPersonajes (sinFallas st) = colPersonajes st"
  "colLugares (sinFallas st) = colLugares st"
  "colObjetos (sinFallas st) = colObjetos st"
  "colEventos (sinFallas st) = colEventos st"
  "colCapitulos (sinFallas st) = colCapitulos st"
  "\<not> falla (sinFallas st) l"
  by (simp_all add: sinFallas_def)

lemma leer_sinFallas: "leer st l v = Inr x \<Longrightarrow> leer (sinFallas st) l v = Inr x"
  by (simp add: leer_def split: if_splits)

lemma leer_Inr_iff: "leer st l v = Inr x \<longleftrightarrow> \<not> falla st l \<and> x = v"
  by (auto simp: leer_def)

lemma findOneCapitulo_sinFallas [simp]: "findOneCapitulo (sinFallas st) n = findOneCapitulo st n"
  by (simp add: findOneCapitulo_def)

lemma poblarEventos_sinFallas [simp]: "poblarEventos (sinFallas st) ids = poblarEventos st ids"
  by (simp add: poblarEventos_def)

lemma esperar_Inr_iff: "esperar m k = Inr r \<longleftrightarrow> (\<exists>v. m = Inr v \<and> k v = Inr r)"
  by (cases m) (simp_all add: esperar_def)

lemma resolverIds_sinFallas:
  "resolverIds st an = Inr r \<Longrightarrow> resolverIds (sinFallas st) an = Inr r"
  unfolding resolverIds_def
  by (auto simp: esperar_Inr_iff leer_Inr_iff split: if_splits)

lemma ramaExistencia_sinFallas:
  "ramaExistencia st t = Inr r \<Longrightarrow> ramaExistencia (sinFallas st) t = Inr r"
  unfolding ramaExistencia_def Let_def
  by (auto simp: esperar_Inr_iff leer_Inr_iff)

lemma consultaAvanzada_sinFallas:
  "consultaAvanzada st rs ps ls os = Inr r \<Longrightarrow> consultaAvanzada (sinFallas st) rs ps ls os = Inr r"
  unfolding consultaAvanzada_def
  by (auto simp: esperar_Inr_iff leer_Inr_iff split: if_splits)

lemma cuerpo_sinFallas:
  assumes "cuerpo st an = Inr r"
  shows "cuerpo (sinFallas st) an = Inr r"
proof -
  consider (cap) "capitulo an \<noteq> None \<and> capitulo an \<noteq> Some 0"
    | (fz) "\<not> (capitulo an \<noteq> None \<and> capitulo an \<noteq> Some 0)" "fuzzy an \<noteq> None \<and> \<not> verdadero (terminoExistencia an)"
    | (rest) "\<not> (capitulo an \<noteq> None \<and> capitulo an \<noteq> Some 0)" "\<not> (fuzzy an \<noteq> None \<and> \<not> verdadero (terminoExistencia an))"
    by blast
  then show ?thesis
  proof cases
    case cap
    then show ?thesis using assms
      by (auto simp: cuerpo_def esperar_Inr_iff leer_Inr_iff split: option.splits)
  next
    case fz
    then show ?thesis using assms
      by (auto simp: cuerpo_def esperar_Inr_iff leer_Inr_iff)
  next
    case rest
    from rest assms obtain ps ls os where
      ids: "resolverIds st an = Inr (ps, ls, os)" and
      k: "(if verdadero (terminoExistencia an) then ramaExistencia st (the (terminoExistencia an))
           else if regexVerbos an = [] \<and> ps = [] \<and> ls = [] \<and> os = [] then
             Inr (Json \<lparr>r_capitulo = Todos, termino = None, resultados = []\<rparr>)
           else consultaAvanzada st (regexVerbos an) ps ls os) = Inr r"
      by (auto simp: cuerpo_def esperar_Inr_iff)
    have "(if verdadero (terminoExistencia an) then ramaExistencia (sinFallas st) (the (terminoExistencia an))
           else if regexVerbos an = [] \<and> ps = [] \<and> ls = [] \<and> os = [] then
             Inr (Json \<lparr>r_capitulo = Todos, termino = None, resultados = []\<rparr>)
           else consultaAvanzada (sinFallas st) (regexVerbos an) ps ls os) = Inr r"
      using k by (auto split: if_splits intro: ramaExistencia_sinFallas consultaAvanzada_sinFallas)
    moreover have "cuerpo (sinFallas st) an =
        esperar (resolverIds (sinFallas st) an) (\<lambda>(personajeIds, lugarIds, eventosDesdeObjetos).
          if verdadero (terminoExistencia an) then ramaExistencia (sinFallas st) (the (terminoExistencia an))
          else if regexVerbos an = [] \<and> personajeIds = [] \<and> lugarIds = [] \<and> eventosDesdeObjetos = [] then
            Inr (Json \<lparr>r_capitulo = Todos, termino = None, resultados = []\<rparr>)
          else consultaAvanzada (sinFallas st) (regexVerbos an) personajeIds lugarIds eventosDesdeObjetos)"
      unfolding cuerpo_def
      by (subst if_not_P, fact rest(1), subst if_not_P, fact rest(2), rule refl)
    ultimately show ?thesis using resolverIds_sinFallas [OF ids]
      by (simp add: esperar_def)
  qed
qed

lemma buscarEventoSimilar_sinFallas:
  "\<not> falla st EventosFuzzy \<Longrightarrow> buscarEventoSimilar nlp (sinFallas st) q = buscarEventoSimilar nlp st q"
  by (simp add: buscarEventoSimilar_def leer_def)

lemma analizarPregunta_sinFallas:
  "\<not> falla st EventosFuzzy \<Longrightarrow> analizarPregunta nlp st q = Inr an
     \<Longrightarrow> analizarPregunta nlp (sinFallas st) q = Inr an"
  unfolding analizarPregunta_def Let_def
  by (auto simp: esperar_Inr_iff leer_Inr_iff buscarEventoSimilar_sinFallas)

lemma preguntas_None: "preguntas nlp st None = Estado400"
  by (simp add: preguntas_def)

lemma preguntas_vacia: "trim q0 = [] \<Longrightarrow> preguntas nlp st (Some q0) = Estado400"
  by (simp add: preguntas_def)

lemma preguntas_atajo:
  "matchCapitulo (trim q0) = Some ds \<Longrightarrow>
     preguntas nlp st (Some q0) =
       (case leer st AtajoCapitulo
               (map_option (\<lambda>c. poblarEventos st (eventos c)) (findOneCapitulo st (parseInt ds))) of
          Inl _ \<Rightarrow> Rechazada
        | Inr None \<Rightarrow> Json \<lparr>r_capitulo = Numero (parseInt ds), termino = None, resultados = []\<rparr>
        | Inr (Some evs) \<Rightarrow> Json \<lparr>r_capitulo = Numero (parseInt ds), termino = None, resultados = evs\<rparr>)"
proof -
  assume m: "matchCapitulo (trim q0) = Some ds"
  then have "trim q0 \<noteq> []" by auto
  then show ?thesis using m by (simp add: preguntas_def Let_def)
qed

lemma preguntas_analisis:
  "trim q0 \<noteq> [] \<Longrightarrow> matchCapitulo (trim q0) = None \<Longrightarrow>
     preguntas nlp st (Some q0) =
       (case analizarPregunta nlp st (trim q0) of
          Inl _ \<Rightarrow> Rechazada
        | Inr an \<Rightarrow> (case cuerpo st an of Inl _ \<Rightarrow> Estado500 | Inr r \<Rightarrow> r))"
  by (simp add: preguntas_def)

subsection \<open>The fuzzy ranker\<close>

text \<open>\<open>puntaje texto e\<close> is the score of the event \<open>e\<close> against the normalised
  question. The stable descending sort puts first the first event, in the order of the
  store, among those of the highest score.\<close>

definition puntaje :: "jsstring \<Rightarrow> evento \<Rightarrow> rat" where
  "puntaje texto e = calcularScore texto (combinado e)"

lemma calcularScore_card:
  "calcularScore a b =
     of_nat (card (set (splitWs a) \<inter> set (splitWs b))) / of_nat (max (card (set (splitWs a))) 1)"
proof -
  have "distinct (filter (\<lambda>p. p \<in> set (splitWs b)) (remdups (splitWs a)))" by simp
  then have "length (filter (\<lambda>p. p \<in> set (splitWs b)) (remdups (splitWs a)))
      = card (set (filter (\<lambda>p. p \<in> set (splitWs b)) (remdups (splitWs a))))"
    by (simp only: distinct_card)
  also have "set (filter (\<lambda>p. p \<in> set (splitWs b)) (remdups (splitWs a))) = set (splitWs a) \<inter> set (splitWs b)"
    by auto
  finally show ?thesis
    by (simp add: calcularScore_def Let_def length_remdups_card_conv)
qed

lemma calcularScore_le_1: "calcularScore a b \<le> 1"
proof -
  have "card (set (splitWs a) \<inter> set (splitWs b)) \<le> card (set (splitWs a))"
    by (intro card_mono) auto
  then have "card (set (splitWs a) \<inter> set (splitWs b)) \<le> max (card (set (splitWs a))) 1" by simp
  then have "(of_nat (card (set (splitWs a) \<inter> set (splitWs b))) :: rat) \<le> of_nat (max (card (set (splitWs a))) 1)"
    by (simp only: of_nat_le_iff)
  moreover have "(0::rat) < of_nat (max (card (set (splitWs a))) 1)" by simp
  ultimately show ?thesis unfolding calcularScore_card by (simp add: divide_le_eq_1)
qed

lemma splitWs_nonempty: "splitFrom sep cur s \<noteq> []"
  by (induction s arbitrary: sep cur) auto

lemma calcularScore_1:
  assumes "set (splitWs a) \<subseteq> set (splitWs b)"
  shows "calcularScore a b = 1"
proof -
  have i: "set (splitWs a) \<inter> set (splitWs b) = set (splitWs a)" using assms by auto
  have ne: "splitWs a \<noteq> []" using splitWs_nonempty by (simp add: splitWs_def)
  then have p: "0 < card (set (splitWs a))" by (simp add: card_gt_0_iff)
  then have m: "max (card (set (splitWs a))) 1 = card (set (splitWs a))" by simp
  have "(of_nat (card (set (splitWs a))) :: rat) \<noteq> 0" using ne by simp
  then show ?thesis unfolding calcularScore_card i m by (rule divide_self)
qed

lemma splitFrom_tokens_prefix:
  assumes "a \<noteq> []" and "\<not> isSpace (last a)" and "isSpace sp"
  shows "set (splitFrom sep cur a) \<subseteq> set (splitFrom sep cur (a @ sp # b))"
  using assms
proof (induction a arbitrary: sep cur)
  case Nil
  then show ?case by simp
next
  case (Cons c a)
  show ?case
  proof (cases "a = []")
    case True
    then have "\<not> isSpace c" using Cons.prems by simp
    then show ?thesis using True Cons.prems(3) by simp
  next
    case False
    then have l: "\<not> isSpace (last a)" using Cons.prems by simp
    show ?thesis
      using Cons.IH [OF False l Cons.prems(3)] by auto
  qed
qed

lemma splitWs_tokens_prefix:
  assumes "a = [] \<or> \<not> isSpace (last a)" and "isSpace sp"
  shows "set (splitWs a) \<subseteq> set (splitWs (a @ sp # b))"
proof (cases "a = []")
  case True
  then show ?thesis using assms(2) by (simp add: splitWs_def)
next
  case False
  then show ?thesis using assms splitFrom_tokens_prefix unfolding splitWs_def by blast
qed


lemma find_filter_Cons: "filter P xs = y # r \<Longrightarrow> find P xs = Some y"
  by (induction xs) (auto split: if_splits)

lemma find_map_comp: "find P (map g xs) = map_option g (find (\<lambda>x. P (g x)) xs)"
  by (induction xs) simp_all

lemma sort_key_primero:
  assumes "xs \<noteq> []"
  shows "\<exists>y ys. sort_key f xs = y # ys \<and> y \<in> set xs \<and> (\<forall>x\<in>set xs. f y \<le> f x)
           \<and> find (\<lambda>x. f x = f y) xs = Some y"
proof -
  have "set (sort_key f xs) = set xs" by simp
  then have "sort_key f xs \<noteq> []" using assms by (metis set_empty)
  then obtain y ys where s: "sort_key f xs = y # ys" by (cases "sort_key f xs") auto
  have "set (y # ys) = set xs" unfolding s [symmetric] by simp
  then have m: "y \<in> set xs" and ss: "set xs \<subseteq> insert y (set ys)" by auto
  have "sorted (map f (y # ys))" unfolding s [symmetric] by simp
  then have "\<forall>z\<in>set ys. f y \<le> f z" by simp
  then have le: "\<forall>x\<in>set xs. f y \<le> f x" using ss by auto
  have "filter (\<lambda>x. f x = f y) xs = filter (\<lambda>x. f x = f y) (y # ys)"
    unfolding s [symmetric] by (simp only: sort_key_stable)
  then have "filter (\<lambda>x. f x = f y) xs = y # filter (\<lambda>x. f x = f y) ys" by simp
  then have "find (\<lambda>x. f x = f y) xs = Some y" by (rule find_filter_Cons)
  then show ?thesis using s m le by blast
qed

lemma candidatos_primero:
  assumes "evs \<noteq> []"
  shows "\<exists>e r. candidatos texto evs = (e, puntaje texto e) # r \<and> e \<in> set evs
           \<and> (\<forall>x\<in>set evs. puntaje texto x \<le> puntaje texto e)
           \<and> find (\<lambda>x. puntaje texto x = puntaje texto e) evs = Some e"
proof -
  let ?g = "\<lambda>e. (e, puntaje texto e)"
  let ?f = "\<lambda>c::evento \<times> rat. - snd c"
  have c: "candidatos texto evs = sort_key ?f (map ?g evs)"
    by (simp add: candidatos_def puntaje_def)
  have "map ?g evs \<noteq> []" using assms by simp
  from sort_key_primero [OF this, of ?f] obtain y ys where
    s: "sort_key ?f (map ?g evs) = y # ys" and m: "y \<in> set (map ?g evs)"
    and le: "\<forall>x\<in>set (map ?g evs). ?f y \<le> ?f x"
    and fi: "find (\<lambda>x. ?f x = ?f y) (map ?g evs) = Some y" by blast
  from m obtain e where e: "e \<in> set evs" "y = ?g e" by auto
  have le': "\<forall>x\<in>set evs. puntaje texto x \<le> puntaje texto e" using le e by simp
  have "map_option ?g (find (\<lambda>x. puntaje texto x = puntaje texto e) evs) = Some (?g e)"
    using fi e by (simp add: find_map_comp)
  then have "find (\<lambda>x. puntaje texto x = puntaje texto e) evs = Some e" by auto
  then show ?thesis using c s e le' by auto
qed

lemma mejorCandidato_Some:
  assumes "mejorCandidato texto evs = Some e"
  shows "e \<in> set evs \<and> 2 / 10 < puntaje texto e \<and> (\<forall>x\<in>set evs. puntaje texto x \<le> puntaje texto e)
         \<and> find (\<lambda>x. puntaje texto x = puntaje texto e) evs = Some e"
proof -
  have ne: "evs \<noteq> []"
    using assms by (auto simp: mejorCandidato_def candidatos_def)
  from candidatos_primero [OF ne, of texto] obtain e' r where
    c: "candidatos texto evs = (e', puntaje texto e') # r" and m: "e' \<in> set evs"
    and le: "\<forall>x\<in>set evs. puntaje texto x \<le> puntaje texto e'"
    and fi: "find (\<lambda>x. puntaje texto x = puntaje texto e') evs = Some e'" by blast
  have a: "e' = e" and b: "2 / 10 < puntaje texto e'"
    using assms c by (simp_all add: mejorCandidato_def split: if_splits)
  show ?thesis using m le fi b unfolding a by blast
qed

lemma mejorCandidato_None:
  "mejorCandidato texto evs = None \<longleftrightarrow> (\<forall>x\<in>set evs. puntaje texto x \<le> 2 / 10)"
proof (cases "evs = []")
  case True
  then show ?thesis by (simp add: mejorCandidato_def candidatos_def)
next
  case False
  from candidatos_primero [OF False, of texto] obtain e' r where
    c: "candidatos texto evs = (e', puntaje texto e') # r" and m: "e' \<in> set evs"
    and le: "\<forall>x\<in>set evs. puntaje texto x \<le> puntaje texto e'" by blast
  have "mejorCandidato texto evs = None \<longleftrightarrow> puntaje texto e' \<le> 2 / 10"
    using c by (simp add: mejorCandidato_def not_less)
  also have "\<dots> \<longleftrightarrow> (\<forall>x\<in>set evs. puntaje texto x \<le> 2 / 10)"
    using m le by (meson order_trans)
  finally show ?thesis .
qed

lemma buscarEventoSimilar_eq:
  "buscarEventoSimilar nlp st pregunta =
     (if falla st EventosFuzzy then None else mejorCandidato (normalizar nlp pregunta) (colEventos st))"
  by (simp add: buscarEventoSimilar_def leer_def mejorCandidato_def candidatos_def)

lemma foldCU_espacio: "foldCU 0x20 = 0x20"
  by (simp add: foldCU_def lowerCU_def decompose_low)

lemma foldCU_no_espacio: "\<not> isSpace c \<Longrightarrow> \<not> isSpace (foldCU c)"
proof -
  assume n: "\<not> isSpace c"
  let ?l = "lowerCU c"
  have nl: "\<not> isSpace ?l" using n by (auto simp: lowerCU_def isSpace_def)
  from decompose_cases [of ?l] show ?thesis
  proof
    assume "decompose ?l = [?l] \<and> map_of tablaNFD ?l = None"
    then show ?thesis using nl by (simp add: foldCU_def)
  next
    assume "\<exists>b m. decompose ?l = [b, m] \<and> 0 \<le> b \<and> b < 0x80 \<and> isCombiningMark m \<and> 0xC0 \<le> ?l \<and> ?l < 0x100
        \<and> ?l \<noteq> 0xD7 \<and> ?l \<noteq> 0xDF \<and> (0xE0 \<le> ?l \<longrightarrow> 0x61 \<le> b \<and> b \<le> 0x7A)"
    then obtain b m where d: "decompose ?l = [b, m]" and l: "0xC0 \<le> ?l" "?l \<noteq> 0xD7" "?l \<noteq> 0xDF"
      and b: "0xE0 \<le> ?l \<longrightarrow> 0x61 \<le> b \<and> b \<le> 0x7A" by blast
    have "0xE0 \<le> ?l" using l by (auto simp: lowerCU_def split: if_splits)
    then have "0x61 \<le> b \<and> b \<le> 0x7A" using b by simp
    then have "\<not> isSpace b" by (auto simp: isSpace_def)
    then show ?thesis using d by (simp add: foldCU_def)
  qed
qed

lemma latin1_append: "latin1 (a @ b) \<longleftrightarrow> latin1 a \<and> latin1 b"
  by (auto simp: latin1_def)

lemma puntaje_titulo:
  assumes "latin1 (nombre e)" and "latin1 (case descripcion e of None \<Rightarrow> [] | Some d \<Rightarrow> d)"
    and "nombre e = [] \<or> \<not> isSpace (last (nombre e))"
  shows "puntaje (limpiarTexto (nombre e)) e = 1"
proof -
  let ?d = "case descripcion e of None \<Rightarrow> [] | Some d \<Rightarrow> d"
  let ?t = "map foldCU (nombre e)"
  have l: "latin1 (nombre e @ [0x20] @ ?d)"
    using assms(1,2) by (simp add: latin1_append) (simp add: latin1_def)
  have c: "combinado e = ?t @ 0x20 # map foldCU ?d"
    unfolding combinado_def limpiarTexto_latin1 [OF l] by (simp add: foldCU_espacio)
  have t: "limpiarTexto (nombre e) = ?t" using assms(1) by (rule limpiarTexto_latin1)
  have "?t = [] \<or> \<not> isSpace (last ?t)"
    using assms(3) by (cases "nombre e = []") (simp_all add: last_map foldCU_no_espacio)
  moreover have "isSpace 0x20" by (simp add: isSpace_def)
  ultimately have "set (splitWs ?t) \<subseteq> set (splitWs (?t @ 0x20 # map foldCU ?d))"
    by (rule splitWs_tokens_prefix)
  then show ?thesis unfolding puntaje_def t c by (rule calcularScore_1)
qed

subsection \<open>The verb patterns\<close>

text \<open>The two loops of step 7 as one expression, and the meaning of the patterns they
  build: \<open>parseRe\<close> reads an escaped source back as the literal it came from, and a
  pattern \<^verbatim>\<open>\bP\b\<close> is found in a text exactly where an occurrence of \<open>P\<close> (up to
  case) has a word boundary on both sides.\<close>

lemma verbosDeFormas_eq:
  "verbosDeFormas t formas resto =
     (if list_ex (\<lambda>f. reTest (formaRegExp f) t) resto then map formaRegExp formas else [])"
  by (induction resto) simp_all

lemma verbosDeEntradas_eq:
  "verbosDeEntradas t entradas =
     concat (map (\<lambda>(clave, formas).
                    if list_ex (\<lambda>f. reTest (formaRegExp f) t) formas then map formaRegExp formas else [])
                 entradas)"
  by (induction entradas) (auto simp: verbosDeFormas_eq)

lemma parseRe_Lit: "\<not> isRegexSyntax c \<Longrightarrow> parseRe (c # xs) = map_option (Cons (Lit c)) (parseRe xs)"
  by (cases xs) (auto simp: isRegexSyntax_def)

lemma parseRe_escaped:
  "isRegexSyntax c \<Longrightarrow> parseRe (0x5C # c # xs) = map_option (Cons (Lit c)) (parseRe xs)"
  by (auto simp: isRegexSyntax_def)

lemma parseRe_escapeRegex:
  "parseRe (escapeRegex p @ xs) = map_option ((@) (map Lit p)) (parseRe xs)"
proof (induction p)
  case Nil
  show ?case by (simp add: escapeRegex_def option.map_ident)
next
  case (Cons c p)
  have ih: "parseRe (escapeRegex p @ xs) = map_option ((@) (map Lit p)) (parseRe xs)"
    using Cons by simp
  show ?case
  proof (cases "isRegexSyntax c")
    case True
    then have "parseRe (escapeRegex (c # p) @ xs) = map_option (Cons (Lit c)) (parseRe (escapeRegex p @ xs))"
      using parseRe_escaped [of c "escapeRegex p @ xs"] by (simp add: escapeRegex_def)
    then show ?thesis by (simp add: ih option.map_comp comp_def)
  next
    case False
    then have "parseRe (escapeRegex (c # p) @ xs) = map_option (Cons (Lit c)) (parseRe (escapeRegex p @ xs))"
      using parseRe_Lit [of c "escapeRegex p @ xs"] by (simp add: escapeRegex_def)
    then show ?thesis by (simp add: ih option.map_comp comp_def)
  qed
qed

lemma parseRe_wordRegExp:
  "parseRe (source (wordRegExp (escapeRegex p))) = Some (Boundary # map Lit p @ [Boundary])"
proof -
  have "parseRe [0x5C, 0x62] = Some [Boundary]" by simp
  then have "parseRe (escapeRegex p @ [0x5C, 0x62]) = Some (map Lit p @ [Boundary])"
    by (simp add: parseRe_escapeRegex)
  then show ?thesis by (simp add: wordRegExp_def)
qed

definition ultimo :: "jsstring \<Rightarrow> int option" where
  "ultimo xs = (if xs = [] then None else Some (last xs))"

definition avanzar :: "int option \<Rightarrow> jsstring \<Rightarrow> int option" where
  "avanzar prev m = foldl (\<lambda>_ c. Some c) prev m"

lemma avanzar_simps [simp]:
  "avanzar prev [] = prev"
  "avanzar prev (d # m) = avanzar (Some d) m"
  by (simp_all add: avanzar_def)

lemma avanzar_append [simp]: "avanzar prev (m @ n) = avanzar (avanzar prev m) n"
  by (simp add: avanzar_def)

lemma avanzar_ultimo: "avanzar (ultimo pre) m = ultimo (pre @ m)"
proof (induction m arbitrary: pre)
  case Nil
  show ?case by simp
next
  case (Cons d m)
  have "avanzar (ultimo pre) (d # m) = avanzar (ultimo (pre @ [d])) m"
    by (simp add: ultimo_def)
  then show ?case using Cons [of "pre @ [d]"] by simp
qed

lemma matchHere_Lits:
  "matchHere ci (map Lit p @ as) prev s \<longleftrightarrow>
     (\<exists>m rest. s = m @ rest \<and> list_all2 (sameCU ci) p m \<and> matchHere ci as (avanzar prev m) rest)"
proof (induction p arbitrary: prev s)
  case Nil
  show ?case by simp
next
  case (Cons c p)
  show ?case
  proof
    assume l: "matchHere ci (map Lit (c # p) @ as) prev s"
    then obtain d ds where s: "s = d # ds" by (cases s) auto
    from l s have c: "sameCU ci c d" and r: "matchHere ci (map Lit p @ as) (Some d) ds" by simp_all
    from r obtain m rest where m: "ds = m @ rest" "list_all2 (sameCU ci) p m"
      "matchHere ci as (avanzar (Some d) m) rest"
      unfolding Cons.IH by blast
    have "s = (d # m) @ rest" using s m(1) by simp
    moreover have "list_all2 (sameCU ci) (c # p) (d # m)" using c m(2) by simp
    moreover have "matchHere ci as (avanzar prev (d # m)) rest" using m(3) by simp
    ultimately show "\<exists>m rest. s = m @ rest \<and> list_all2 (sameCU ci) (c # p) m
        \<and> matchHere ci as (avanzar prev m) rest" by blast
  next
    assume "\<exists>m rest. s = m @ rest \<and> list_all2 (sameCU ci) (c # p) m
        \<and> matchHere ci as (avanzar prev m) rest"
    then obtain m rest where m: "s = m @ rest" "list_all2 (sameCU ci) (c # p) m"
      "matchHere ci as (avanzar prev m) rest" by blast
    from m(2) obtain d m' where m': "m = d # m'" "sameCU ci c d" "list_all2 (sameCU ci) p m'"
      by (cases m) simp_all
    have "matchHere ci as (avanzar (Some d) m') rest" using m(3) m'(1) by simp
    then have "matchHere ci (map Lit p @ as) (Some d) (m' @ rest)"
      unfolding Cons.IH using m'(3) by blast
    then show "matchHere ci (map Lit (c # p) @ as) prev s"
      using m(1) m'(1,2) by simp
  qed
qed

lemma searchFrom_iff:
  "searchFrom ci as prev s \<longleftrightarrow>
     (\<exists>pre rest. s = pre @ rest \<and> matchHere ci as (avanzar prev pre) rest)"
proof (induction s arbitrary: prev)
  case Nil
  show ?case by simp
next
  case (Cons d ds)
  show ?case
  proof
    assume "searchFrom ci as prev (d # ds)"
    then consider "matchHere ci as prev (d # ds)" | "searchFrom ci as (Some d) ds" by auto
    then show "\<exists>pre rest. d # ds = pre @ rest \<and> matchHere ci as (avanzar prev pre) rest"
    proof cases
      case 1
      then have "d # ds = [] @ (d # ds) \<and> matchHere ci as (avanzar prev []) (d # ds)" by simp
      then show ?thesis by blast
    next
      case 2
      then obtain pre rest where "ds = pre @ rest" "matchHere ci as (avanzar (Some d) pre) rest"
        unfolding Cons.IH by blast
      then have "d # ds = (d # pre) @ rest \<and> matchHere ci as (avanzar prev (d # pre)) rest" by simp
      then show ?thesis by blast
    qed
  next
    assume "\<exists>pre rest. d # ds = pre @ rest \<and> matchHere ci as (avanzar prev pre) rest"
    then obtain pre rest where p: "d # ds = pre @ rest" "matchHere ci as (avanzar prev pre) rest"
      by blast
    show "searchFrom ci as prev (d # ds)"
    proof (cases pre)
      case Nil
      then have "matchHere ci as prev (d # ds)" using p by simp
      then show ?thesis by simp
    next
      case (Cons d' pre')
      then have "ds = pre' @ rest" "matchHere ci as (avanzar (Some d) pre') rest" using p by simp_all
      then have "searchFrom ci as (Some d) ds" unfolding Cons.IH by blast
      then show ?thesis by simp
    qed
  qed
qed

lemma avanzar_None: "avanzar None pre = ultimo pre"
  using avanzar_ultimo [of "[]" pre] by (simp add: ultimo_def)

lemma js_i: "js ''i'' = [0x69]"
  by (simp add: js_def)

text \<open>The meaning of a pattern \<^verbatim>\<open>\bP\b\<close> with the flag \<^verbatim>\<open>i\<close>.\<close>

lemma reTest_wordRegExp:
  "reTest (wordRegExp (escapeRegex p)) t \<longleftrightarrow>
     (\<exists>pre m post. t = pre @ m @ post \<and> list_all2 (sameCU True) p m
        \<and> atBoundary (ultimo pre) (m @ post) \<and> atBoundary (ultimo (pre @ m)) post)"
proof -
  have fl: "(0x69 \<in> set (flags (wordRegExp (escapeRegex p)))) = True"
    by (simp add: wordRegExp_def js_i)
  have "reTest (wordRegExp (escapeRegex p)) t \<longleftrightarrow>
        searchFrom True (Boundary # map Lit p @ [Boundary]) None t"
    unfolding reTest_def parseRe_wordRegExp fl by simp
  also have "\<dots> \<longleftrightarrow> (\<exists>pre rest. t = pre @ rest \<and> atBoundary (ultimo pre) rest
        \<and> matchHere True (map Lit p @ [Boundary]) (ultimo pre) rest)"
    unfolding searchFrom_iff by (simp add: avanzar_None)
  also have "\<dots> \<longleftrightarrow> (\<exists>pre rest. t = pre @ rest \<and> atBoundary (ultimo pre) rest
        \<and> (\<exists>m post. rest = m @ post \<and> list_all2 (sameCU True) p m
              \<and> atBoundary (ultimo (pre @ m)) post))"
    unfolding matchHere_Lits avanzar_ultimo by simp
  also have "\<dots> \<longleftrightarrow> (\<exists>pre m post. t = pre @ m @ post \<and> list_all2 (sameCU True) p m
        \<and> atBoundary (ultimo pre) (m @ post) \<and> atBoundary (ultimo (pre @ m)) post)"
    by blast
  finally show ?thesis .
qed

lemma list_all2_sameCU_refl: "list_all2 (sameCU ci) p p"
  by (simp add: list_all2_refl sameCU_def)

lemma reTest_palabra:
  assumes "t = pre @ p @ post" and "p \<noteq> []" and "isWordChar (hd p)" and "isWordChar (last p)"
    and "pre = [] \<or> \<not> isWordChar (last pre)" and "post = [] \<or> \<not> isWordChar (hd post)"
  shows "reTest (wordRegExp (escapeRegex p)) t"
proof -
  have "atBoundary (ultimo pre) (p @ post)"
    using assms(2,3,5) by (cases p) (auto simp: atBoundary_def ultimo_def)
  moreover have "atBoundary (ultimo (pre @ p)) post"
    using assms(2,4,6) by (cases post) (auto simp: atBoundary_def ultimo_def)
  ultimately show ?thesis
    unfolding reTest_wordRegExp using assms(1) list_all2_sameCU_refl by blast
qed

subsection \<open>The verb table in effect\<close>

text \<open>The value of the object literal as \<^verbatim>\<open>Object.entries\<close> lists it: 38 entries for
  the 41 properties written, the keys \<^verbatim>\<open>casar\<close>, \<^verbatim>\<open>perder\<close> and \<^verbatim>\<open>cambiar\<close> at the
  place of their first writing with the list of their second.\<close>

definition verbosClaveEfectivo :: "(jsstring \<times> jsstring list) list" where
  "verbosClaveEfectivo =
    [(js ''morir'',
       [js ''morir'', js ''muri'' @ [0xF3], js ''falleci'' @ [0xF3],
        js ''pereci'' @ [0xF3], js ''expir'' @ [0xF3], js ''dej'' @ [0xF3] @ js '' de existir'',
        js ''trascendi'' @ [0xF3], js ''se muri'' @ [0xF3]]),
     (js ''fundar'',
       [js ''fundar'', js ''fund'' @ [0xF3], js ''crear'',
        js ''cre'' @ [0xF3], js ''establecer'', js ''estableci'' @ [0xF3],
        js ''erigir'', js ''construy'' @ [0xF3], js ''form'' @ [0xF3]]),
     (js ''nacer'',
       [js ''nacer'', js ''naci'' @ [0xF3], js ''nacido'',
        js ''nacimiento'', js ''nacieron'', js ''vino al mundo'',
        js ''nace'', js ''alumbramiento'']),
     (js ''casar'',
       [js ''casarse'', js ''se cas'' @ [0xF3], js ''contrajo matrimonio'',
        js ''contrajo nupcias'', js ''matrimonio'', js ''boda'',
        js ''se uni'' @ [0xF3], js ''se despos'' @ [0xF3], js ''despos'' @ [0xF3],
        js ''celebr'' @ [0xF3] @ js '' su boda'']),
     (js ''desaparecer'',
       [js ''desaparecer'', js ''desapareci'' @ [0xF3], js ''se desvaneci'' @ [0xF3],
        js ''se perdi'' @ [0xF3], js ''se esfum'' @ [0xF3]]),
     (js ''envejecer'',
       [js ''envejecer'', js ''envejeci'' @ [0xF3], js ''se volvi'' @ [0xF3] @ js '' viejo'',
        js ''se hizo mayor'', js ''envejece'']),
     (js ''amar'',
       [js ''amar'', js ''se enamor'' @ [0xF3], js ''amor'',
        js ''am'' @ [0xF3], js ''ador'' @ [0xF3], js ''querer'',
        js ''se quiso'']),
     (js ''partir'',
       [js ''partir'', js ''sali'' @ [0xF3], js ''se fue'',
        js ''abandon'' @ [0xF3], js ''march'' @ [0xF3], js ''huy'' @ [0xF3],
        js ''emigr'' @ [0xF3]]),
     (js ''regresar'',
       [js ''regresar'', js ''volvi'' @ [0xF3], js ''retorn'' @ [0xF3],
        js ''reapareci'' @ [0xF3], js ''regres'' @ [0xF3], js ''volvieron'']),
     (js ''escribir'',
       [js ''escribir'', js ''escribi'' @ [0xF3], js ''redact'' @ [0xF3],
        js ''document'' @ [0xF3], js ''anot'' @ [0xF3], js ''registr'' @ [0xF3]]),
     (js ''revelar'',
       [js ''revelar'', js ''cont'' @ [0xF3], js ''confes'' @ [0xF3],
        js ''descubri'' @ [0xF3], js ''admiti'' @ [0xF3], js ''explic'' @ [0xF3]]),
     (js ''asesinar'',
       [js ''matar'', js ''asesinar'', js ''fue asesinado'',
        js ''ejecutar'', js ''ajustici'' @ [0xF3], js ''elimin'' @ [0xF3]]),
     (js ''leer'',
       [js ''leer'', js ''ley'' @ [0xF3], js ''consult'' @ [0xF3],
        js ''revis'' @ [0xF3], js ''estudi'' @ [0xF3]]),
     (js ''profetizar'',
       [js ''profetizar'', js ''profetiz'' @ [0xF3], js ''predijo'',
        js ''adivin'' @ [0xF3], js ''vaticin'' @ [0xF3]]),
     (js ''imponer'',
       [js ''imponer'', js ''impuso'', js ''domin'' @ [0xF3],
        js ''trajo disciplina'', js ''orden'' @ [0xF3], js ''estableci'' @ [0xF3] @ js '' normas'']),
     (js ''enriquecer'',
       [js ''riqueza'', js ''hacerse rico'', js ''volverse rico'',
        js ''obtener riqueza'', js ''rico'', js ''ser rico'',
        js ''volvi'' @ [0xF3] @ js '' rico'', js ''hizo rico'', js ''enriquecer'',
        js ''enriquecerse'', js ''enriqueci'' @ [0xF3], js ''enriquecido'']),
     (js ''perder'',
       [js ''perder'', js ''perdi'' @ [0xF3], js ''derrota'',
        js ''fracas'' @ [0xF3], js ''fue vencido'', js ''cay'' @ [0xF3]]),
     (js ''crecer'',
       [js ''crecer'', js ''creci'' @ [0xF3], js ''crece'',
        js ''crecido'', js ''crecimiento'', js ''crecieron'',
        js ''expansi'' @ [0xF3] @ js ''n'', js ''desarrollo'']),
     (js ''huir'',
       [js ''huir'', js ''huy'' @ [0xF3], js ''escap'' @ [0xF3],
        js ''fug'' @ [0xF3], js ''se escap'' @ [0xF3], js ''se fug'' @ [0xF3]]),
     (js ''construir'',
       [js ''construir'', js ''construy'' @ [0xF3], js ''edific'' @ [0xF3],
        js ''levant'' @ [0xF3], js ''edificaron'']),
     (js ''destruir'',
       [js ''destruir'', js ''destruy'' @ [0xF3], js ''arras'' @ [0xF3],
        js ''derrib'' @ [0xF3], js ''se vino abajo'']),
     (js ''cambiar'',
       [js ''cambiar'', js ''cambio'', js ''cambi'' @ [0xF3],
        js ''modificar'', js ''transformar'', js ''modific'' @ [0xF3],
        js ''transform'' @ [0xF3], js ''fue modificado'', js ''variar'',
        js ''variaci'' @ [0xF3] @ js ''n'', js ''se transform'' @ [0xF3]]),
     (js ''sufrir'',
       [js ''sufrir'', js ''sufri'' @ [0xF3], js ''padeci'' @ [0xF3],
        js ''dolor'', js ''pen'' @ [0xF3], js ''afligi'' @ [0xF3]]),
     (js ''ganar'',
       [js ''ganar'', js ''gan'' @ [0xF3], js ''obtuvo'',
        js ''venci'' @ [0xF3], js ''triunf'' @ [0xF3], js ''logr'' @ [0xF3]]),
     (js ''aparecer'',
       [js ''aparecer'', js ''apareci'' @ [0xF3], js ''surgi'' @ [0xF3],
        js ''se present'' @ [0xF3], js ''emergi'' @ [0xF3]]),
     (js ''visitar'',
       [js ''visitar'', js ''visit'' @ [0xF3], js ''vino a ver'',
        js ''lleg'' @ [0xF3] @ js '' a ver'', js ''se apareci'' @ [0xF3]]),
     (js ''recordar'',
       [js ''recordar'', js ''record'' @ [0xF3], js ''memoria'',
        js ''rememor'' @ [0xF3], js ''evoc'' @ [0xF3]]),
     (js ''olvidar'',
       [js ''olvidar'', js ''olvid'' @ [0xF3], js ''se le olvid'' @ [0xF3],
        js ''lo perdi'' @ [0xF3] @ js '' de mente'', js ''omiti'' @ [0xF3]]),
     (js ''confesar'',
       [js ''confesar'', js ''confes'' @ [0xF3], js ''admiti'' @ [0xF3],
        js ''revel'' @ [0xF3], js ''declar'' @ [0xF3]]),
     (js ''ver'',
       [js ''ver'', js ''vio'', js ''observ'' @ [0xF3],
        js ''mir'' @ [0xF3], js ''contempl'' @ [0xF3], js ''presenci'' @ [0xF3]]),
     (js ''o'' @ [0xED] @ js ''r'',
       [js ''o'' @ [0xED] @ js ''r'', js ''oy'' @ [0xF3], js ''escuch'' @ [0xF3],
        js ''percibi'' @ [0xF3], js ''atendi'' @ [0xF3]]),
     (js ''poseer'',
       [js ''poseer'', js ''tuvo'', js ''ten'' @ [0xED] @ js ''a'',
        js ''era due'' @ [0xF1] @ js ''o de'', js ''obtuvo'', js ''posey'' @ [0xF3]]),
     (js ''entregar'',
       [js ''entregar'', js ''entreg'' @ [0xF3], js ''cedi'' @ [0xF3],
        js ''dio'', js ''regal'' @ [0xF3]]),
     (js ''recibir'',
       [js ''recibir'', js ''recibi'' @ [0xF3], js ''obtuvo'',
        js ''acept'' @ [0xF3], js ''fue dado'']),
     (js ''haber'',
       [js ''haber'', js ''hubo'', js ''hay'',
        js ''existi'' @ [0xF3], js ''exist'' @ [0xED] @ js ''a'', js ''existieron'',
        js ''ocurri'' @ [0xF3], js ''aconteci'' @ [0xF3]]),
     (js ''tener'',
       [js ''tener'', js ''ten'' @ [0xED] @ js ''a'', js ''tuvo'',
        js ''han tenido'', js ''hubo'', js ''pose'' @ [0xED] @ js ''a'',
        js ''contaba con'', js ''mantuvo'', js ''dispon'' @ [0xED] @ js ''a de'']),
     (js ''comerciar'',
       [js ''comerciar'', js ''comerci'' @ [0xF3], js ''vendi'' @ [0xF3],
        js ''intercambi'' @ [0xF3], js ''negoci'' @ [0xF3], js ''trans'' @ [0xF3],
        js ''trueque'' @ [0xF3], js ''trafic'' @ [0xF3], js ''hizo negocios'']),
     (js ''existir'',
       [js ''existir'', js ''exist'' @ [0xED] @ js ''a'', js ''existi'' @ [0xF3],
        js ''hubo'', js ''hay'', js ''se encontraba'',
        js ''se hallaba'', js ''estaba presente'', js ''permanec'' @ [0xED] @ js ''a'',
        js ''subsist'' @ [0xED] @ js ''a''])]"

lemma verbosClave_efectivo [code]: "verbosClave = verbosClaveEfectivo"
  by code_simp

definition formasEnVigor :: "jsstring list" where
  "formasEnVigor = concat (map snd verbosClave)"

text \<open>An intent is triggered by a question when one of its forms in effect is found in
  the folded question.\<close>

definition dispara :: "jsstring list \<Rightarrow> jsstring \<Rightarrow> bool" where
  "dispara formas pregunta \<longleftrightarrow> list_ex (\<lambda>f. reTest (formaRegExp f) (limpiarTexto pregunta)) formas"

lemma detectarVerbos_eq:
  "detectarVerbos pregunta =
     concat (map (\<lambda>(clave, formas). if dispara formas pregunta then map formaRegExp formas else [])
                 verbosClave)"
  by (simp add: detectarVerbos_def verbosDeEntradas_eq dispara_def)

lemma detectarVerbos_entrada:
  assumes "(clave, formas) \<in> set verbosClave" and "dispara formas pregunta"
  shows "set (map formaRegExp formas) \<subseteq> set (detectarVerbos pregunta)"
  using assms unfolding detectarVerbos_eq by force

lemma detectarVerbos_en_vigor:
  "set (detectarVerbos pregunta) \<subseteq> formaRegExp ` set formasEnVigor"
proof
  fix r assume "r \<in> set (detectarVerbos pregunta)"
  then obtain clave formas f where "(clave, formas) \<in> set verbosClave" "f \<in> set formas" "r = formaRegExp f"
    unfolding detectarVerbos_eq by (auto split: if_splits)
  then have "f \<in> set formasEnVigor" unfolding formasEnVigor_def by force
  then show "r \<in> formaRegExp ` set formasEnVigor" using \<open>r = formaRegExp f\<close> by blast
qed

subsection \<open>The handler, stage by stage\<close>

lemma analizarPregunta_Inr:
  assumes "\<not> falla st CargarPersonajes" and "\<not> falla st CargarLugares" and "\<not> falla st CargarObjetos"
  shows "analizarPregunta nlp st q =
           Inr \<lparr>capitulo = map_option parseInt (matchCapitulo (normalizar nlp q)),
                terminoExistencia = detectarExistencia q,
                regexVerbos = detectarVerbos q,
                personajes = detectarPersonajes (normalizar nlp q) (colPersonajes st),
                lugares = detectarLugares (normalizar nlp q) (colLugares st),
                objetos = detectarObjetos (normalizar nlp q) (colObjetos st),
                fuzzy = (if \<not> verdadero (detectarExistencia q) then buscarEventoSimilar nlp st q else None)\<rparr>"
  using assms by (simp add: analizarPregunta_def Let_def esperar_def leer_def)

text \<open>The empty store.\<close>

definition almacenVacio :: store where
  "almacenVacio = \<lparr>colPersonajes = [], colLugares = [], colObjetos = [], colEventos = [],
                   colCapitulos = [], falla = (\<lambda>_. False)\<rparr>"

text \<open>The store and the question of the examples that follow: one event, no entities,
  and the question \<^verbatim>\<open>guerra civil\<close>, which names no verb.\<close>

definition eventoGuerra :: evento where
  "eventoGuerra = \<lparr>e_id = 20, nombre = js ''La guerra civil'',
                   descripcion = Some (js ''Treinta y dos levantamientos armados''),
                   personajes_involucrados = [], lugar_relacionado = None,
                   generacion_relacionada = None\<rparr>"

definition almacenGuerra :: store where
  "almacenGuerra = \<lparr>colPersonajes = [], colLugares = [], colObjetos = [],
                    colEventos = [eventoGuerra], colCapitulos = [], falla = (\<lambda>_. False)\<rparr>"

lemma verbos_guerra_civil: "detectarVerbos (js ''guerra civil'') = []"
  by code_simp

lemma analisis_guerra_civil:
  assumes "colPersonajes st = []" and "colLugares st = []" and "colObjetos st = []"
    and "\<not> falla st CargarPersonajes" and "\<not> falla st CargarLugares" and "\<not> falla st CargarObjetos"
  shows "analizarPregunta (\<lambda>s. s) st (js ''guerra civil'') =
           Inr \<lparr>capitulo = None, terminoExistencia = None, regexVerbos = [],
                personajes = [], lugares = [], objetos = [],
                fuzzy = buscarEventoSimilar (\<lambda>s. s) st (js ''guerra civil'')\<rparr>"
proof -
  have n: "normalizar (\<lambda>s. s) (js ''guerra civil'') = js ''guerra civil''" by code_simp
  have c: "matchCapitulo (js ''guerra civil'') = None" by code_simp
  have e: "detectarExistencia (js ''guerra civil'') = None" by code_simp
  show ?thesis
    unfolding analizarPregunta_Inr [OF assms(4-6)] n c e verbos_guerra_civil assms(1-3)
    by (simp add: detectarPersonajes_def detectarLugares_def detectarObjetos_def verdadero_def)
qed

lemma pregunta_guerra_civil:
  "trim (js ''guerra civil'') = js ''guerra civil''"
  "js ''guerra civil'' \<noteq> []"
  "matchCapitulo (js ''guerra civil'') = None"
  by code_simp+

lemma preguntas_guerra_civil:
  assumes "colPersonajes st = []" and "colLugares st = []" and "colObjetos st = []"
    and "\<not> falla st CargarPersonajes" and "\<not> falla st CargarLugares" and "\<not> falla st CargarObjetos"
  shows "preguntas (\<lambda>s. s) st (Some (js ''guerra civil'')) =
           (case cuerpo st \<lparr>capitulo = None, terminoExistencia = None, regexVerbos = [],
                           personajes = [], lugares = [], objetos = [],
                           fuzzy = buscarEventoSimilar (\<lambda>s. s) st (js ''guerra civil'')\<rparr> of
              Inl _ \<Rightarrow> Estado500
            | Inr r \<Rightarrow> r)"
proof -
  note t = pregunta_guerra_civil(1)
  have "preguntas (\<lambda>s. s) st (Some (js ''guerra civil'')) =
       (case analizarPregunta (\<lambda>s. s) st (trim (js ''guerra civil'')) of
          Inl _ \<Rightarrow> Rechazada
        | Inr an \<Rightarrow> (case cuerpo st an of Inl _ \<Rightarrow> Estado500 | Inr r \<Rightarrow> r))"
    by (intro preguntas_analisis) (simp_all add: pregunta_guerra_civil)
  then show ?thesis
    unfolding t analisis_guerra_civil [OF assms] by simp
qed

section \<open>The claims of the specification\<close>

text \<open>Each claim is stated in words before its theorem. A claim that the code does not
  satisfy as it is worded comes with the input on which it fails and with the nearest
  statement that holds.\<close>

subsection \<open>C1: the fallback cascade\<close>

text \<open>The three fallback sets, and the cascade as the specification words it: tried in
  the order objects, characters, places, the first set that is not empty wins.\<close>

definition eventosDeObjetos :: "store \<Rightarrow> nat list \<Rightarrow> evento list" where
  "eventosDeObjetos st eventosDesdeObjetos = filter (\<lambda>e. e_id e \<in> set eventosDesdeObjetos) (colEventos st)"

definition eventosDePersonajes :: "store \<Rightarrow> nat list \<Rightarrow> evento list" where
  "eventosDePersonajes st personajeIds = filter (involucra personajeIds) (colEventos st)"

definition eventosDeLugares :: "store \<Rightarrow> nat list \<Rightarrow> evento list" where
  "eventosDeLugares st lugarIds = filter (ocurreEn lugarIds) (colEventos st)"

definition cascadaSegunSpec :: "store \<Rightarrow> nat list \<Rightarrow> nat list \<Rightarrow> nat list \<Rightarrow> evento list" where
  "cascadaSegunSpec st personajeIds lugarIds eventosDesdeObjetos =
     (if eventosDeObjetos st eventosDesdeObjetos \<noteq> [] then eventosDeObjetos st eventosDesdeObjetos
      else if eventosDePersonajes st personajeIds \<noteq> [] then eventosDePersonajes st personajeIds
      else eventosDeLugares st lugarIds)"

text \<open>C1 (as amended): when the first query is answered with no event, the handler
  issues exactly one further query, chosen by the identifier lists and not by what the
  queries return: the events of the objects when the list of their event identifiers is
  not empty (the reads for characters and places are then never issued, so their failing
  changes nothing), else the events of the characters when there are character
  identifiers, else the events of the places when there are place identifiers. The
  answer is what that one query returns, tagged \<^verbatim>\<open>todos\<close>; with no identifier at all it
  is the empty list tagged \<^verbatim>\<open>todos\<close>.\<close>

theorem cascada_fallbacks:
  assumes "\<not> falla st ConsultaInicial"
    and "filter (cumpleFiltro rs personajeIds lugarIds eventosDesdeObjetos) (colEventos st) = []"
  shows "consultaAvanzada st rs personajeIds lugarIds eventosDesdeObjetos =
           (if eventosDesdeObjetos \<noteq> [] then
              (if falla st FallbackObjetos then Inl ErrorBD
               else Inr (Json \<lparr>r_capitulo = Todos, termino = None,
                               resultados = eventosDeObjetos st eventosDesdeObjetos\<rparr>))
            else if personajeIds \<noteq> [] then
              (if falla st FallbackPersonajes then Inl ErrorBD
               else Inr (Json \<lparr>r_capitulo = Todos, termino = None,
                               resultados = eventosDePersonajes st personajeIds\<rparr>))
            else if lugarIds \<noteq> [] then
              (if falla st FallbackLugares then Inl ErrorBD
               else Inr (Json \<lparr>r_capitulo = Todos, termino = None,
                               resultados = eventosDeLugares st lugarIds\<rparr>))
            else Inr (Json \<lparr>r_capitulo = Todos, termino = None, resultados = []\<rparr>))"
  using assms
  by (simp add: consultaAvanzada_def esperar_def leer_def eventosDeObjetos_def
      eventosDePersonajes_def eventosDeLugares_def)

text \<open>A store for the examples: \<^verbatim>\<open>Ursula\<close> (1) takes part in no event, the event 10
  happens in \<^verbatim>\<open>Macondo\<close> (2) with nobody, the event 11 involves the character 3 and
  the event 12 is the one an object refers to.\<close>

definition eventoLugar :: evento where
  "eventoLugar = \<lparr>e_id = 10, nombre = js ''La fundacion'', descripcion = Some (js ''Se levanta el pueblo''),
                  personajes_involucrados = [], lugar_relacionado = Some 2,
                  generacion_relacionada = None\<rparr>"

definition eventoPersonaje :: evento where
  "eventoPersonaje = \<lparr>e_id = 11, nombre = js ''El insomnio'', descripcion = None,
                      personajes_involucrados = [3], lugar_relacionado = None,
                      generacion_relacionada = None\<rparr>"

definition eventoObjeto :: evento where
  "eventoObjeto = \<lparr>e_id = 12, nombre = js ''Los pergaminos'', descripcion = None,
                   personajes_involucrados = [], lugar_relacionado = None,
                   generacion_relacionada = None\<rparr>"

definition almacenCascada :: store where
  "almacenCascada =
     \<lparr>colPersonajes = [\<lparr>p_id = 1, p_nombre = js ''Ursula''\<rparr>, \<lparr>p_id = 3, p_nombre = js ''Rebeca''\<rparr>],
      colLugares = [\<lparr>l_id = 2, l_nombre = js ''Macondo''\<rparr>],
      colObjetos = [],
      colEventos = [eventoLugar, eventoPersonaje, eventoObjeto],
      colCapitulos = [],
      falla = (\<lambda>l. l = FallbackPersonajes \<or> l = FallbackLugares)\<rparr>"

text \<open>The object fallback wins over disjoint character and place sets, and the two
  other reads, which would fail in this store, are not issued.\<close>

theorem cascada_fallbacks_witness:
  "\<not> falla almacenCascada ConsultaInicial
   \<and> filter (cumpleFiltro [] [3] [2] [12]) (colEventos almacenCascada) = []
   \<and> eventosDePersonajes (almacenCascada\<lparr>falla := \<lambda>_. False\<rparr>) [3] = [eventoPersonaje]
   \<and> eventosDeLugares (almacenCascada\<lparr>falla := \<lambda>_. False\<rparr>) [2] = [eventoLugar]
   \<and> consultaAvanzada almacenCascada [] [3] [2] [12] =
       Inr (Json \<lparr>r_capitulo = Todos, termino = None, resultados = [eventoObjeto]\<rparr>)"
proof -
  have f: "\<not> falla almacenCascada ConsultaInicial"
    by (simp add: almacenCascada_def)
  have p: "filter (cumpleFiltro [] [3] [2] [12]) (colEventos almacenCascada) = []"
    by code_simp
  have a: "eventosDePersonajes (almacenCascada\<lparr>falla := \<lambda>_. False\<rparr>) [3] = [eventoPersonaje]"
    by code_simp
  have b: "eventosDeLugares (almacenCascada\<lparr>falla := \<lambda>_. False\<rparr>) [2] = [eventoLugar]"
    by code_simp
  have o: "eventosDeObjetos almacenCascada [12] = [eventoObjeto]"
    by code_simp
  have g: "\<not> falla almacenCascada FallbackObjetos"
    by (simp add: almacenCascada_def)
  show ?thesis using cascada_fallbacks [OF f p] f p a b o g by simp
qed

text \<open>C1 as stated fails: with the character 1 and the place 2 matched, the first query
  is empty, the character list is not, and the handler answers with the events of the
  character, which are none, although the place has an event: the first set that is
  not empty is not returned.\<close>

theorem cascada_no_primer_no_vacio:
  "filter (cumpleFiltro [] [1] [2] []) (colEventos (almacenCascada\<lparr>falla := \<lambda>_. False\<rparr>)) = []
   \<and> consultaAvanzada (almacenCascada\<lparr>falla := \<lambda>_. False\<rparr>) [] [1] [2] [] =
       Inr (Json \<lparr>r_capitulo = Todos, termino = None, resultados = []\<rparr>)
   \<and> cascadaSegunSpec (almacenCascada\<lparr>falla := \<lambda>_. False\<rparr>) [1] [2] [] = [eventoLugar]"
  by code_simp

subsection \<open>C2: the existence branch\<close>

lemma resolverIds_total:
  "\<forall>l. \<not> falla st l \<Longrightarrow> \<exists>ps ls os. resolverIds st an = Inr (ps, ls, os)"
  by (simp add: resolverIds_def esperar_def leer_def)

lemma filter_ids_distinct:
  assumes "distinct (map f xs)"
  shows "filter (\<lambda>x. f x \<in> set (map f (filter P xs))) xs = filter P xs"
proof (rule filter_cong [OF refl])
  fix x assume x: "x \<in> set xs"
  have inj: "inj_on f (set xs)" using assms by (simp add: distinct_map)
  show "(f x \<in> set (map f (filter P xs))) = P x"
  proof
    assume "f x \<in> set (map f (filter P xs))"
    then obtain y where y: "y \<in> set xs" "P y" "f y = f x" by auto
    then have "y = x" using inj x by (auto dest: inj_onD)
    then show "P x" using y by simp
  next
    assume "P x"
    then show "f x \<in> set (map f (filter P xs))" using x by auto
  qed
qed

lemma ramaExistencia_respuesta:
  assumes "\<forall>l. \<not> falla st l" and "distinct (map e_id (colEventos st))"
  shows "ramaExistencia st t =
           Inr (Json \<lparr>r_capitulo = Existencia, termino = Some t,
                      resultados = filter (coincideTermino (normalizarTexto t)) (colEventos st)\<rparr>)"
  using assms(1) filter_ids_distinct [OF assms(2)]
  by (simp add: ramaExistencia_def Let_def esperar_def leer_def)

lemma detectarExistencia_vacia: "detectarExistencia [] = None"
  by code_simp

text \<open>C2 (as amended): for every question without a chapter pattern (neither in the
  raw text nor, with a number other than 0, in the normalised text) whose detected
  existence term \<open>t\<close> is not empty, when every read is answered and the events have
  distinct identifiers, the answer is tagged \<^verbatim>\<open>existencia\<close>, carries the detected term
  \<open>t\<close> as it came out of the detector, and holds exactly the events whose name or
  description, folded by \<^verbatim>\<open>normalizarTexto\<close>, contains the term folded the same way.
  Neither the verb patterns nor the entities enter.\<close>

theorem rama_existencia:
  assumes "matchCapitulo (trim q0) = None"
    and "\<forall>ds. matchCapitulo (normalizar nlp (trim q0)) = Some ds \<longrightarrow> parseInt ds = 0"
    and "detectarExistencia (trim q0) = Some t" and "t \<noteq> []"
    and "\<forall>l. \<not> falla st l"
    and "distinct (map e_id (colEventos st))"
  shows "preguntas nlp st (Some q0) =
           Json \<lparr>r_capitulo = Existencia, termino = Some t,
                 resultados =
                   filter (\<lambda>e. jsIncludes (normalizarTexto (nombre e)) (normalizarTexto t)
                              \<or> jsIncludes (normalizarTexto (case descripcion e of None \<Rightarrow> [] | Some d \<Rightarrow> d))
                                   (normalizarTexto t))
                     (colEventos st)\<rparr>"
proof -
  let ?q = "trim q0"
  let ?an = "\<lparr>capitulo = map_option parseInt (matchCapitulo (normalizar nlp ?q)),
              terminoExistencia = detectarExistencia ?q,
              regexVerbos = detectarVerbos ?q,
              personajes = detectarPersonajes (normalizar nlp ?q) (colPersonajes st),
              lugares = detectarLugares (normalizar nlp ?q) (colLugares st),
              objetos = detectarObjetos (normalizar nlp ?q) (colObjetos st),
              fuzzy = (if \<not> verdadero (detectarExistencia ?q) then buscarEventoSimilar nlp st ?q else None)\<rparr>"
  have ne: "?q \<noteq> []" using assms(3) detectarExistencia_vacia by auto
  have an: "analizarPregunta nlp st ?q = Inr ?an"
    using assms(5) by (intro analizarPregunta_Inr) simp_all
  have v: "verdadero (terminoExistencia ?an)"
    using assms(3,4) by (simp add: verdadero_def)
  have c: "\<not> (capitulo ?an \<noteq> None \<and> capitulo ?an \<noteq> Some 0)"
    using assms(2) by (cases "matchCapitulo (normalizar nlp ?q)") simp_all
  have f: "\<not> (fuzzy ?an \<noteq> None \<and> \<not> verdadero (terminoExistencia ?an))"
    using v by simp
  obtain ps ls os where ids: "resolverIds st ?an = Inr (ps, ls, os)"
    using resolverIds_total [OF assms(5)] by blast
  have "cuerpo st ?an =
        esperar (resolverIds st ?an) (\<lambda>(personajeIds, lugarIds, eventosDesdeObjetos).
          if verdadero (terminoExistencia ?an) then ramaExistencia st (the (terminoExistencia ?an))
          else if regexVerbos ?an = [] \<and> personajeIds = [] \<and> lugarIds = [] \<and> eventosDesdeObjetos = [] then
            Inr (Json \<lparr>r_capitulo = Todos, termino = None, resultados = []\<rparr>)
          else consultaAvanzada st (regexVerbos ?an) personajeIds lugarIds eventosDesdeObjetos)"
    unfolding cuerpo_def
    by (subst if_not_P, fact c, subst if_not_P, fact f, rule refl)
  then have "cuerpo st ?an = ramaExistencia st t"
    using ids v assms(3) by (simp add: esperar_def)
  then have "cuerpo st ?an =
      Inr (Json \<lparr>r_capitulo = Existencia, termino = Some t,
                 resultados = filter (coincideTermino (normalizarTexto t)) (colEventos st)\<rparr>)"
    using ramaExistencia_respuesta [OF assms(5,6)] by simp
  then have "preguntas nlp st (Some q0) =
      Json \<lparr>r_capitulo = Existencia, termino = Some t,
            resultados = filter (coincideTermino (normalizarTexto t)) (colEventos st)\<rparr>"
    using preguntas_analisis [OF ne assms(1)] an by simp
  moreover have "coincideTermino (normalizarTexto t) =
      (\<lambda>e. jsIncludes (normalizarTexto (nombre e)) (normalizarTexto t)
            \<or> jsIncludes (normalizarTexto (case descripcion e of None \<Rightarrow> [] | Some d \<Rightarrow> d))
                 (normalizarTexto t))"
    by (rule ext) (simp add: coincideTermino_def Let_def)
  ultimately show ?thesis by simp
qed

theorem rama_existencia_witness:
  "matchCapitulo (trim ([0xBF] @ js ''Hubo alguna guerra?'')) = None
   \<and> matchCapitulo (normalizar (\<lambda>s. s) (trim ([0xBF] @ js ''Hubo alguna guerra?''))) = None
   \<and> detectarExistencia (trim ([0xBF] @ js ''Hubo alguna guerra?'')) = Some (js ''guerra'')
   \<and> js ''guerra'' \<noteq> []
   \<and> (\<forall>l. \<not> falla almacenGuerra l)
   \<and> distinct (map e_id (colEventos almacenGuerra))
   \<and> preguntas (\<lambda>s. s) almacenGuerra (Some ([0xBF] @ js ''Hubo alguna guerra?'')) =
       Json \<lparr>r_capitulo = Existencia, termino = Some (js ''guerra''), resultados = [eventoGuerra]\<rparr>"
proof -
  let ?q0 = "[0xBF] @ js ''Hubo alguna guerra?''"
  have a: "matchCapitulo (trim ?q0) = None" by code_simp
  have b0: "matchCapitulo (normalizar (\<lambda>s. s) (trim ?q0)) = None" by code_simp
  have b: "\<forall>ds. matchCapitulo (normalizar (\<lambda>s. s) (trim ?q0)) = Some ds \<longrightarrow> parseInt ds = 0"
    using b0 by simp
  have c: "detectarExistencia (trim ?q0) = Some (js ''guerra'')" by code_simp
  have d: "js ''guerra'' \<noteq> []" by code_simp
  have e: "\<forall>l. \<not> falla almacenGuerra l" by (simp add: almacenGuerra_def)
  have f: "distinct (map e_id (colEventos almacenGuerra))" by (simp add: almacenGuerra_def)
  have g: "filter (\<lambda>e. jsIncludes (normalizarTexto (nombre e)) (normalizarTexto (js ''guerra''))
                              \<or> jsIncludes (normalizarTexto (case descripcion e of None \<Rightarrow> [] | Some d \<Rightarrow> d))
                                   (normalizarTexto (js ''guerra'')))
                     (colEventos almacenGuerra) = [eventoGuerra]"
    by code_simp
  show ?thesis using rama_existencia [OF a b c d e f] a b0 c d e f g by simp
qed

text \<open>C2 as stated fails: the question \<^verbatim>\<open>hubo capitulo 3\<close> (with the accent) has the
  existence term \<^verbatim>\<open>capitulo 3\<close>, and the chapter shortcut answers it, tagged 3.\<close>

theorem existencia_con_capitulo:
  "detectarExistencia (trim (js ''hubo cap'' @ [0xED] @ js ''tulo 3'')) = Some (js ''capitulo 3'')
   \<and> (\<forall>nlp. preguntas nlp almacenVacio (Some (js ''hubo cap'' @ [0xED] @ js ''tulo 3''))
         = Json \<lparr>r_capitulo = Numero 3, termino = None, resultados = []\<rparr>)"
proof -
  have a: "detectarExistencia (trim (js ''hubo cap'' @ [0xED] @ js ''tulo 3'')) = Some (js ''capitulo 3'')"
    by code_simp
  have b: "preguntas nlp almacenVacio (Some (js ''hubo cap'' @ [0xED] @ js ''tulo 3''))
         = Json \<lparr>r_capitulo = Numero 3, termino = None, resultados = []\<rparr>" for nlp
    by code_simp
  show ?thesis using a b by simp
qed

text \<open>A term can be detected and empty; it is then falsy and the branch is not taken.\<close>

lemma existencia_termino_vacio:
  "detectarExistencia (js ''hubo ...'') = Some []"
  by code_simp

subsection \<open>C3: the verb matcher\<close>

definition formasMorir :: "jsstring list" where
  "formasMorir =
     [js ''morir'', js ''muri'' @ [0xF3], js ''falleci'' @ [0xF3], js ''pereci'' @ [0xF3],
      js ''expir'' @ [0xF3], js ''dej'' @ [0xF3] @ js '' de existir'', js ''trascendi'' @ [0xF3],
      js ''se muri'' @ [0xF3]]"

lemma entrada_morir: "(js ''morir'', formasMorir) \<in> set verbosClave"
  unfolding verbosClave_efectivo by (simp add: verbosClaveEfectivo_def formasMorir_def)

lemma plegado_murio: "limpiarTexto (js ''muri'' @ [0xF3]) = js ''murio''"
  by code_simp

lemma palabra_murio: "js ''murio'' \<noteq> [] \<and> isWordChar (hd (js ''murio'')) \<and> isWordChar (last (js ''murio''))"
  by code_simp

lemma reTest_formaRegExp:
  "reTest (formaRegExp f) t \<longleftrightarrow>
     (\<exists>pre m post. t = pre @ m @ post \<and> list_all2 (sameCU True) (limpiarTexto f) m
        \<and> atBoundary (ultimo pre) (m @ post) \<and> atBoundary (ultimo (pre @ m)) post)"
  unfolding formaRegExp_def by (rule reTest_wordRegExp)

text \<open>C3: for every question the verb matcher returns, intent by intent in the order of
  the table, the patterns of all forms of each intent one of whose forms is found in the
  folded question, and nothing for the other intents; the pattern of a form is
  \<^verbatim>\<open>\b\<close>, the escaped folded form, \<^verbatim>\<open>\b\<close> with the flag \<^verbatim>\<open>i\<close>, and it is found
  exactly where the folded form occurs up to case between two word boundaries. In
  particular, when the folded question holds the word \<^verbatim>\<open>murio\<close>, the result is not
  empty and holds the patterns of all eight forms of \<^verbatim>\<open>morir\<close>, among them those of
  \<^verbatim>\<open>fallecio\<close> and \<^verbatim>\<open>perecio\<close> (written with their accents in the table).\<close>

theorem detectarVerbos_especificado:
  "detectarVerbos q =
     concat (map (\<lambda>(clave, formas).
                    if list_ex (\<lambda>f. reTest (formaRegExp f) (limpiarTexto q)) formas
                    then map formaRegExp formas else [])
                 verbosClave)
   \<and> (\<forall>f t. reTest (formaRegExp f) t \<longleftrightarrow>
         (\<exists>pre m post. t = pre @ m @ post \<and> list_all2 (sameCU True) (limpiarTexto f) m
            \<and> atBoundary (ultimo pre) (m @ post) \<and> atBoundary (ultimo (pre @ m)) post))
   \<and> (\<forall>pre post.
         limpiarTexto q = pre @ js ''murio'' @ post
         \<and> (pre = [] \<or> \<not> isWordChar (last pre)) \<and> (post = [] \<or> \<not> isWordChar (hd post))
         \<longrightarrow> detectarVerbos q \<noteq> []
             \<and> (\<forall>f\<in>set formasMorir. formaRegExp f \<in> set (detectarVerbos q))
             \<and> formaRegExp (js ''falleci'' @ [0xF3]) \<in> set (detectarVerbos q)
             \<and> formaRegExp (js ''pereci'' @ [0xF3]) \<in> set (detectarVerbos q))"
proof (intro conjI allI impI)
  show "detectarVerbos q =
     concat (map (\<lambda>(clave, formas).
                    if list_ex (\<lambda>f. reTest (formaRegExp f) (limpiarTexto q)) formas
                    then map formaRegExp formas else [])
                 verbosClave)"
    by (simp add: detectarVerbos_def verbosDeEntradas_eq)
next
  fix f t
  show "reTest (formaRegExp f) t \<longleftrightarrow>
         (\<exists>pre m post. t = pre @ m @ post \<and> list_all2 (sameCU True) (limpiarTexto f) m
            \<and> atBoundary (ultimo pre) (m @ post) \<and> atBoundary (ultimo (pre @ m)) post)"
    by (rule reTest_formaRegExp)
next
  fix pre post
  assume h: "limpiarTexto q = pre @ js ''murio'' @ post
         \<and> (pre = [] \<or> \<not> isWordChar (last pre)) \<and> (post = [] \<or> \<not> isWordChar (hd post))"
  have "reTest (wordRegExp (escapeRegex (js ''murio''))) (limpiarTexto q)"
    using h palabra_murio by (intro reTest_palabra [of _ pre _ post]) simp_all
  then have "reTest (formaRegExp (js ''muri'' @ [0xF3])) (limpiarTexto q)"
    by (simp add: formaRegExp_def plegado_murio)
  moreover have "js ''muri'' @ [0xF3] \<in> set formasMorir"
    by (simp add: formasMorir_def)
  ultimately have d: "dispara formasMorir q"
    unfolding dispara_def list_ex_iff by blast
  have sub: "set (map formaRegExp formasMorir) \<subseteq> set (detectarVerbos q)"
    using detectarVerbos_entrada [OF entrada_morir d] .
  then show all: "\<forall>f\<in>set formasMorir. formaRegExp f \<in> set (detectarVerbos q)" by auto
  have "js ''morir'' \<in> set formasMorir" by (simp add: formasMorir_def)
  then show "detectarVerbos q \<noteq> []" using all by fastforce
  have "js ''falleci'' @ [0xF3] \<in> set formasMorir" by (simp add: formasMorir_def)
  then show "formaRegExp (js ''falleci'' @ [0xF3]) \<in> set (detectarVerbos q)" using all by blast
  have "js ''pereci'' @ [0xF3] \<in> set formasMorir" by (simp add: formasMorir_def)
  then show "formaRegExp (js ''pereci'' @ [0xF3]) \<in> set (detectarVerbos q)" using all by blast
qed

lemma formaRegExp_fallecio:
  "formaRegExp (js ''falleci'' @ [0xF3]) = \<lparr>source = [0x5C, 0x62] @ js ''fallecio'' @ [0x5C, 0x62], flags = js ''i''\<rparr>"
  by code_simp

theorem detectarVerbos_especificado_witness:
  "limpiarTexto ([0xBF] @ js ''Qui'' @ [0xE9] @ js ''n muri'' @ [0xF3] @ js '' en Macondo?'')
     = ([0xBF] @ js ''quien '') @ js ''murio'' @ js '' en macondo?''
   \<and> \<not> isWordChar (last ([0xBF] @ js ''quien ''))
   \<and> \<not> isWordChar (hd (js '' en macondo?''))
   \<and> \<lparr>source = [0x5C, 0x62] @ js ''fallecio'' @ [0x5C, 0x62], flags = js ''i''\<rparr>
       \<in> set (detectarVerbos ([0xBF] @ js ''Qui'' @ [0xE9] @ js ''n muri'' @ [0xF3] @ js '' en Macondo?''))"
proof -
  let ?q = "[0xBF] @ js ''Qui'' @ [0xE9] @ js ''n muri'' @ [0xF3] @ js '' en Macondo?''"
  have a: "limpiarTexto ?q = ([0xBF] @ js ''quien '') @ js ''murio'' @ js '' en macondo?''"
    by code_simp
  have b: "\<not> isWordChar (last ([0xBF] @ js ''quien ''))" by code_simp
  have c: "\<not> isWordChar (hd (js '' en macondo?''))" by code_simp
  have "formaRegExp (js ''falleci'' @ [0xF3]) \<in> set (detectarVerbos ?q)"
    using detectarVerbos_especificado [of ?q] a b c by blast
  then show ?thesis using a b c by (simp add: formaRegExp_fallecio)
qed

subsection \<open>C4: detectarExistencia\<close>

text \<open>The two examples of the specification.\<close>

lemma detectarExistencia_guerra:
  "detectarExistencia ([0xBF] @ js ''Hubo alguna guerra?'') = Some (js ''guerra'')"
  by code_simp

lemma detectarExistencia_que_paso:
  "detectarExistencia ([0xBF] @ js ''Qu'' @ [0xE9] @ js '' pas'' @ [0xF3] @ js ''?'') = None"
  by code_simp

text \<open>The two patterns of \<^verbatim>\<open>existe\<close> have the group \<^verbatim>\<open>(n)?\<close> before the group of the
  term. On \<^verbatim>\<open>existen fantasmas\<close> the match is \<^verbatim>\<open>m[1] = "n"\<close>, \<^verbatim>\<open>m[2] = "fantasmas"\<close>.\<close>

lemma matchPlantilla_existen:
  "matchPlantilla (patrones ! 3) (js ''existen fantasmas'') = Some [Some (js ''n''), Some (js ''fantasmas'')]"
  by code_simp

text \<open>C4 (the code departs from it): the term of the question
  \<^verbatim>\<open>?Existen fantasmas?\<close> (with the inverted question mark in front) is \<^verbatim>\<open>fantasmas\<close>,
  and \<^verbatim>\<open>m[1] || m[2]\<close> answers the plural letter \<^verbatim>\<open>n\<close> instead.\<close>

theorem detectarExistencia_existen:
  "detectarExistencia ([0xBF] @ js ''Existen fantasmas?'') = Some (js ''n'')"
  by code_simp

text \<open>The singular goes through the second group, as intended.\<close>

lemma detectarExistencia_existe:
  "detectarExistencia ([0xBF] @ js ''Existe alguna peste?'') = Some (js ''peste'')"
  by code_simp

subsection \<open>C5: the fuzzy ranker\<close>

text \<open>C5 (as amended): the ranker reads the events (a rejected read gives \<^verbatim>\<open>null\<close>)
  and scores each one by the number of distinct words of the normalised question that
  are words of the folded name, a space and the description (empty when absent), over
  the number of distinct words of the question, at least 1. It returns an event only
  when the highest score is above \<open>0.2\<close>, and then the first event of the store with
  that score. For a question whose normalised text is the folded name of an event (text
  below \<open>0x100\<close>, the name not ending in white space) that event scores 1, and the
  event returned is the first one of the store that scores 1.\<close>

theorem ranking_difuso:
  "buscarEventoSimilar nlp st q =
     (if falla st EventosFuzzy then None else mejorCandidato (normalizar nlp q) (colEventos st))
   \<and> puntaje texto e =
       of_nat (card (set (splitWs texto) \<inter> set (splitWs (combinado e))))
         / of_nat (max (card (set (splitWs texto))) 1)
   \<and> combinado e = limpiarTexto (nombre e @ [0x20] @ (case descripcion e of None \<Rightarrow> [] | Some d \<Rightarrow> d))
   \<and> (\<forall>e'. mejorCandidato texto evs = Some e' \<longrightarrow>
          e' \<in> set evs \<and> 2 / 10 < puntaje texto e'
          \<and> (\<forall>x\<in>set evs. puntaje texto x \<le> puntaje texto e')
          \<and> find (\<lambda>x. puntaje texto x = puntaje texto e') evs = Some e')
   \<and> (mejorCandidato texto evs = None \<longleftrightarrow> (\<forall>x\<in>set evs. puntaje texto x \<le> 2 / 10))
   \<and> (e \<in> set evs \<and> latin1 (nombre e) \<and> latin1 (case descripcion e of None \<Rightarrow> [] | Some d \<Rightarrow> d)
        \<and> (nombre e = [] \<or> \<not> isSpace (last (nombre e)))
        \<longrightarrow> puntaje (limpiarTexto (nombre e)) e = 1
            \<and> (\<exists>e'. mejorCandidato (limpiarTexto (nombre e)) evs = Some e'
                   \<and> puntaje (limpiarTexto (nombre e)) e' = 1
                   \<and> find (\<lambda>x. puntaje (limpiarTexto (nombre e)) x = 1) evs = Some e'))"
proof (intro conjI allI impI)
  show "buscarEventoSimilar nlp st q =
     (if falla st EventosFuzzy then None else mejorCandidato (normalizar nlp q) (colEventos st))"
    by (rule buscarEventoSimilar_eq)
next
  show "puntaje texto e =
       of_nat (card (set (splitWs texto) \<inter> set (splitWs (combinado e))))
         / of_nat (max (card (set (splitWs texto))) 1)"
    unfolding puntaje_def by (rule calcularScore_card)
next
  show "combinado e = limpiarTexto (nombre e @ [0x20] @ (case descripcion e of None \<Rightarrow> [] | Some d \<Rightarrow> d))"
    by (simp add: combinado_def)
next
  fix e' assume "mejorCandidato texto evs = Some e'"
  from mejorCandidato_Some [OF this]
  show "e' \<in> set evs" and "2 / 10 < puntaje texto e'"
    and "\<forall>x\<in>set evs. puntaje texto x \<le> puntaje texto e'"
    and "find (\<lambda>x. puntaje texto x = puntaje texto e') evs = Some e'"
    by blast+
next
  show "mejorCandidato texto evs = None \<longleftrightarrow> (\<forall>x\<in>set evs. puntaje texto x \<le> 2 / 10)"
    by (rule mejorCandidato_None)
next
  assume h: "e \<in> set evs \<and> latin1 (nombre e) \<and> latin1 (case descripcion e of None \<Rightarrow> [] | Some d \<Rightarrow> d)
        \<and> (nombre e = [] \<or> \<not> isSpace (last (nombre e)))"
  let ?t = "limpiarTexto (nombre e)"
  show p: "puntaje ?t e = 1" using h by (intro puntaje_titulo) simp_all
  have "mejorCandidato ?t evs \<noteq> None"
  proof
    assume "mejorCandidato ?t evs = None"
    then have "puntaje ?t e \<le> 2 / 10" using h unfolding mejorCandidato_None by blast
    then show False using p by simp
  qed
  then obtain e' where s: "mejorCandidato ?t evs = Some e'" by auto
  from mejorCandidato_Some [OF s] have le: "puntaje ?t e \<le> puntaje ?t e'"
    and fi: "find (\<lambda>x. puntaje ?t x = puntaje ?t e') evs = Some e'" using h by blast+
  have "puntaje ?t e' \<le> 1" unfolding puntaje_def by (rule calcularScore_le_1)
  then have one: "puntaje ?t e' = 1" using le p by simp
  then have "find (\<lambda>x. puntaje ?t x = 1) evs = Some e'" using fi by simp
  then show "\<exists>e'. mejorCandidato ?t evs = Some e' \<and> puntaje ?t e' = 1
                   \<and> find (\<lambda>x. puntaje ?t x = 1) evs = Some e'"
    using s one by blast
qed

text \<open>Two events for the examples: the second bears the name \<^verbatim>\<open>La guerra\<close>, the first
  holds both words in its name and description.\<close>

definition eventoPaz :: evento where
  "eventoPaz = \<lparr>e_id = 30, nombre = js ''La paz'', descripcion = Some (js ''Fin de la guerra''),
                personajes_involucrados = [], lugar_relacionado = None, generacion_relacionada = None\<rparr>"

definition eventoTitulo :: evento where
  "eventoTitulo = \<lparr>e_id = 31, nombre = js ''La guerra'', descripcion = None,
                   personajes_involucrados = [], lugar_relacionado = None, generacion_relacionada = None\<rparr>"

definition almacenEmpate :: store where
  "almacenEmpate = \<lparr>colPersonajes = [], colLugares = [], colObjetos = [],
                    colEventos = [eventoPaz, eventoTitulo], colCapitulos = [], falla = (\<lambda>_. False)\<rparr>"

theorem ranking_difuso_witness:
  "eventoTitulo \<in> set [eventoTitulo] \<and> latin1 (nombre eventoTitulo)
   \<and> latin1 (case descripcion eventoTitulo of None \<Rightarrow> [] | Some d \<Rightarrow> d)
   \<and> \<not> isSpace (last (nombre eventoTitulo))
   \<and> limpiarTexto (nombre eventoTitulo) = js ''la guerra''
   \<and> puntaje (js ''la guerra'') eventoTitulo = 1
   \<and> mejorCandidato (js ''la guerra'') [eventoTitulo] = Some eventoTitulo"
proof -
  have a: "eventoTitulo \<in> set [eventoTitulo]" by simp
  have b: "latin1 (nombre eventoTitulo)" by code_simp
  have c: "latin1 (case descripcion eventoTitulo of None \<Rightarrow> [] | Some d \<Rightarrow> d)" by code_simp
  have d: "\<not> isSpace (last (nombre eventoTitulo))" by code_simp
  have t: "limpiarTexto (nombre eventoTitulo) = js ''la guerra''" by code_simp
  from ranking_difuso [of _ _ _ _ eventoTitulo "[eventoTitulo]"] a b c d
  have "puntaje (limpiarTexto (nombre eventoTitulo)) eventoTitulo = 1
        \<and> (\<exists>e'. mejorCandidato (limpiarTexto (nombre eventoTitulo)) [eventoTitulo] = Some e'
               \<and> puntaje (limpiarTexto (nombre eventoTitulo)) e' = 1
               \<and> find (\<lambda>x. puntaje (limpiarTexto (nombre eventoTitulo)) x = 1) [eventoTitulo] = Some e')"
    by blast
  then have "puntaje (js ''la guerra'') eventoTitulo = 1
      \<and> mejorCandidato (js ''la guerra'') [eventoTitulo] = Some eventoTitulo"
    unfolding t by (auto split: if_splits)
  then show ?thesis using a b c d t by simp
qed

text \<open>C5 as stated fails on a tie: the question \<^verbatim>\<open>La guerra\<close> is the name of the second
  event, which scores 1, and the first event, which scores 1 too, is returned.\<close>

theorem empate_no_selecciona:
  "nombre eventoTitulo = js ''La guerra''
   \<and> eventoTitulo \<in> set (colEventos almacenEmpate)
   \<and> puntaje (normalizar (\<lambda>s. s) (js ''La guerra'')) eventoTitulo = 1
   \<and> buscarEventoSimilar (\<lambda>s. s) almacenEmpate (js ''La guerra'') = Some eventoPaz
   \<and> eventoPaz \<noteq> eventoTitulo"
  by code_simp

subsection \<open>C6: the entity matcher\<close>

lemma jsIncludes_iff: "jsIncludes t e \<longleftrightarrow> (\<exists>pre post. t = pre @ e @ post)"
proof (induction t)
  case Nil
  show ?case by auto
next
  case (Cons c cs)
  show ?case
  proof
    assume "jsIncludes (c # cs) e"
    then consider "prefix e (c # cs)" | "jsIncludes cs e" by auto
    then show "\<exists>pre post. c # cs = pre @ e @ post"
    proof cases
      case 1
      then obtain post where "c # cs = [] @ e @ post" by (auto simp: prefix_def)
      then show ?thesis by blast
    next
      case 2
      then obtain pre post where "cs = pre @ e @ post" using Cons by blast
      then have "c # cs = (c # pre) @ e @ post" by simp
      then show ?thesis by blast
    qed
  next
    assume "\<exists>pre post. c # cs = pre @ e @ post"
    then obtain pre post where p: "c # cs = pre @ e @ post" by blast
    show "jsIncludes (c # cs) e"
    proof (cases pre)
      case Nil
      then have "prefix e (c # cs)" using p by (simp add: prefix_def)
      then show ?thesis by simp
    next
      case (Cons d pre')
      then have "cs = pre' @ e @ post" using p by simp
      then have "jsIncludes cs e" using Cons.IH by blast
      then show ?thesis by simp
    qed
  qed
qed

lemma matchFlexible_iff:
  "matchFlexible e t \<longleftrightarrow>
     e \<noteq> [] \<and> t \<noteq> [] \<and> (jsIncludes t e \<or> (\<exists>parte\<in>set (splitWs e). jsIncludes t parte))"
  by (auto simp: matchFlexible_def list_ex_iff)

lemma detectarLugares_eq:
  "detectarLugares t ls = map l_nombre (filter (\<lambda>l. matchFlexible (limpiarTexto (l_nombre l)) t) ls)"
  unfolding detectarLugares_def by (induction ls) simp_all

lemma detectarObjetos_eq:
  "detectarObjetos t os = map o_nombre (filter (\<lambda>ob. matchFlexible (limpiarTexto (o_nombre ob)) t) os)"
  unfolding detectarObjetos_def by (induction os) simp_all

text \<open>The matching rule as the specification words it: the folded name occurs, or the
  folded alias occurs, or a token of the folded name occurs.\<close>

definition coincideSegunSpec :: "jsstring \<Rightarrow> jsstring option \<Rightarrow> jsstring \<Rightarrow> bool" where
  "coincideSegunSpec nombrePlegado aliasPlegado texto \<longleftrightarrow>
     jsIncludes texto nombrePlegado
     \<or> (case aliasPlegado of None \<Rightarrow> False | Some a \<Rightarrow> jsIncludes texto a)
     \<or> list_ex (\<lambda>parte. jsIncludes texto parte) (splitWs nombrePlegado)"

lemma extraerAlias_ejemplo:
  "extraerAlias (js ''Jos'' @ [0xE9] @ js '' Arcadio (el Grande)'') =
     \<lparr>ea_nombre = js ''jose arcadio'', ea_alias = Some (js ''el grande''),
      ea_original = js ''Jos'' @ [0xE9] @ js '' Arcadio (el Grande)''\<rparr>"
  by code_simp

text \<open>C6 (as amended): a character is detected exactly when the normalised question is
  not empty and either its folded name (alias removed, trimmed) is not empty and the
  name or one of its white-space delimited tokens occurs in the question, or its folded
  alias is not empty and the alias or one of the tokens of the alias occurs in the
  question. The values returned for characters are the stored names, trimmed. A place
  or an object is detected exactly when the question and its folded name are not empty
  and the name or one of its tokens occurs; the values returned for them are the stored
  names as they are stored. \<^verbatim>\<open>includes\<close> is the occurrence as a contiguous substring.\<close>

theorem entidades_detectadas:
  "(coincidePersonaje t p \<longleftrightarrow>
      t \<noteq> []
      \<and> ((ea_nombre (extraerAlias (p_nombre p)) \<noteq> []
           \<and> (jsIncludes t (ea_nombre (extraerAlias (p_nombre p)))
               \<or> (\<exists>parte\<in>set (splitWs (ea_nombre (extraerAlias (p_nombre p)))). jsIncludes t parte)))
          \<or> (\<exists>a. ea_alias (extraerAlias (p_nombre p)) = Some a \<and> a \<noteq> []
                \<and> (jsIncludes t a \<or> (\<exists>parte\<in>set (splitWs a). jsIncludes t parte)))))
   \<and> detectarPersonajes t ps = map (\<lambda>p. trim (p_nombre p)) (filter (coincidePersonaje t) ps)
   \<and> detectarLugares t ls =
       map l_nombre (filter (\<lambda>l. t \<noteq> [] \<and> limpiarTexto (l_nombre l) \<noteq> []
                          \<and> (jsIncludes t (limpiarTexto (l_nombre l))
                              \<or> (\<exists>parte\<in>set (splitWs (limpiarTexto (l_nombre l))). jsIncludes t parte))) ls)
   \<and> detectarObjetos t os =
       map o_nombre (filter (\<lambda>ob. t \<noteq> [] \<and> limpiarTexto (o_nombre ob) \<noteq> []
                          \<and> (jsIncludes t (limpiarTexto (o_nombre ob))
                              \<or> (\<exists>parte\<in>set (splitWs (limpiarTexto (o_nombre ob))). jsIncludes t parte))) os)
   \<and> (\<forall>x e. jsIncludes x e \<longleftrightarrow> (\<exists>pre post. x = pre @ e @ post))"
proof (intro conjI allI)
  show "coincidePersonaje t p \<longleftrightarrow>
      t \<noteq> []
      \<and> ((ea_nombre (extraerAlias (p_nombre p)) \<noteq> []
           \<and> (jsIncludes t (ea_nombre (extraerAlias (p_nombre p)))
               \<or> (\<exists>parte\<in>set (splitWs (ea_nombre (extraerAlias (p_nombre p)))). jsIncludes t parte)))
          \<or> (\<exists>a. ea_alias (extraerAlias (p_nombre p)) = Some a \<and> a \<noteq> []
                \<and> (jsIncludes t a \<or> (\<exists>parte\<in>set (splitWs a). jsIncludes t parte))))"
    unfolding coincidePersonaje_def Let_def matchFlexible_iff verdadero_def
    by (cases "ea_alias (extraerAlias (p_nombre p))") auto
next
  show "detectarPersonajes t ps = map (\<lambda>p. trim (p_nombre p)) (filter (coincidePersonaje t) ps)"
    by (simp add: detectarPersonajes_def)
next
  have h: "(\<lambda>l. matchFlexible (limpiarTexto (l_nombre l)) t) =
        (\<lambda>l. t \<noteq> [] \<and> limpiarTexto (l_nombre l) \<noteq> []
                          \<and> (jsIncludes t (limpiarTexto (l_nombre l))
                              \<or> (\<exists>parte\<in>set (splitWs (limpiarTexto (l_nombre l))). jsIncludes t parte)))"
    by (rule ext) (auto simp: matchFlexible_iff)
  show "detectarLugares t ls =
       map l_nombre (filter (\<lambda>l. t \<noteq> [] \<and> limpiarTexto (l_nombre l) \<noteq> []
                          \<and> (jsIncludes t (limpiarTexto (l_nombre l))
                              \<or> (\<exists>parte\<in>set (splitWs (limpiarTexto (l_nombre l))). jsIncludes t parte))) ls)"
    unfolding detectarLugares_eq h ..
next
  have h: "(\<lambda>ob. matchFlexible (limpiarTexto (o_nombre ob)) t) =
        (\<lambda>ob. t \<noteq> [] \<and> limpiarTexto (o_nombre ob) \<noteq> []
                          \<and> (jsIncludes t (limpiarTexto (o_nombre ob))
                              \<or> (\<exists>parte\<in>set (splitWs (limpiarTexto (o_nombre ob))). jsIncludes t parte)))"
    by (rule ext) (auto simp: matchFlexible_iff)
  show "detectarObjetos t os =
       map o_nombre (filter (\<lambda>ob. t \<noteq> [] \<and> limpiarTexto (o_nombre ob) \<noteq> []
                          \<and> (jsIncludes t (limpiarTexto (o_nombre ob))
                              \<or> (\<exists>parte\<in>set (splitWs (limpiarTexto (o_nombre ob))). jsIncludes t parte))) os)"
    unfolding detectarObjetos_eq h ..
next
  fix x e show "jsIncludes x e \<longleftrightarrow> (\<exists>pre post. x = pre @ e @ post)" by (rule jsIncludes_iff)
qed

definition personajeJose :: personaje where
  "personajeJose = \<lparr>p_id = 1, p_nombre = js '' Jos'' @ [0xE9] @ js '' Arcadio (el Grande) ''\<rparr>"

theorem entidades_detectadas_witness:
  "js ''donde vivio arcadio'' \<noteq> []
   \<and> js ''arcadio'' \<in> set (splitWs (ea_nombre (extraerAlias (p_nombre personajeJose))))
   \<and> jsIncludes (js ''donde vivio arcadio'') (js ''arcadio'')
   \<and> coincidePersonaje (js ''donde vivio arcadio'') personajeJose
   \<and> detectarPersonajes (js ''donde vivio arcadio'') [personajeJose]
       = [js ''Jos'' @ [0xE9] @ js '' Arcadio (el Grande)'']
   \<and> detectarLugares (js ''donde vivio arcadio'') [\<lparr>l_id = 2, l_nombre = js ''Arcadia''\<rparr>] = []"
proof -
  let ?t = "js ''donde vivio arcadio''"
  have a: "?t \<noteq> []" by code_simp
  have n: "ea_nombre (extraerAlias (p_nombre personajeJose)) = js ''jose arcadio''" by code_simp
  have b: "js ''arcadio'' \<in> set (splitWs (js ''jose arcadio''))" by code_simp
  have c: "jsIncludes ?t (js ''arcadio'')" by code_simp
  have ne: "js ''jose arcadio'' \<noteq> []" by code_simp
  have m: "coincidePersonaje ?t personajeJose"
    using entidades_detectadas [of ?t personajeJose] a n b c ne by auto
  have tr: "trim (p_nombre personajeJose) = js ''Jos'' @ [0xE9] @ js '' Arcadio (el Grande)''"
    by code_simp
  have d: "detectarPersonajes ?t [personajeJose] = [js ''Jos'' @ [0xE9] @ js '' Arcadio (el Grande)'']"
    using entidades_detectadas [of ?t personajeJose "[personajeJose]"] m tr by simp
  have l: "detectarLugares ?t [\<lparr>l_id = 2, l_nombre = js ''Arcadia''\<rparr>] = []" by code_simp
  show ?thesis using a n b c m d l by simp
qed

text \<open>C6 as stated fails: the question \<^verbatim>\<open>el gato negro\<close> holds neither the name
  \<^verbatim>\<open>jose arcadio\<close>, nor one of its tokens, nor the alias \<^verbatim>\<open>el grande\<close>; it holds the
  token \<^verbatim>\<open>el\<close> of the alias, and the character is detected.\<close>

theorem alias_por_partes:
  "coincidePersonaje (js ''el gato negro'') personajeJose
   \<and> detectarPersonajes (js ''el gato negro'') [personajeJose] = [js ''Jos'' @ [0xE9] @ js '' Arcadio (el Grande)'']
   \<and> \<not> coincideSegunSpec (ea_nombre (extraerAlias (p_nombre personajeJose)))
          (ea_alias (extraerAlias (p_nombre personajeJose))) (js ''el gato negro'')"
  by code_simp

text \<open>The name of a place is returned with the white space it is stored with.\<close>

lemma lugar_sin_recortar:
  "detectarLugares (js ''la casa de macondo'') [\<lparr>l_id = 2, l_nombre = js '' Macondo ''\<rparr>] = [js '' Macondo '']"
  by code_simp

subsection \<open>C7: the chapter shortcut\<close>

lemma poblarEventos_ids:
  "\<forall>i\<in>set ids. \<exists>e\<in>set (colEventos st). e_id e = i \<Longrightarrow> map e_id (poblarEventos st ids) = ids"
proof (induction ids)
  case Nil
  then show ?case by (simp add: poblarEventos_def List.map_filter_simps)
next
  case (Cons i ids)
  then obtain e where e: "e \<in> set (colEventos st)" "e_id e = i" by auto
  then obtain e' where f: "find (\<lambda>e. e_id e = i) (colEventos st) = Some e'"
    by (cases "find (\<lambda>e. e_id e = i) (colEventos st)") (auto simp: find_None_iff)
  then have "e_id e' = i" by (auto simp: find_Some_iff)
  then show ?case using Cons f
    by (simp add: poblarEventos_def List.map_filter_simps)
qed

text \<open>C7 (as amended): when the trimmed question matches the pattern of the route,
  \<^verbatim>\<open>/cap[i\<acute>i]tulo\s*(\d+)/i\<close> (any case, the \<^verbatim>\<open>i\<close> plain or as the one code unit
  \<open>0xED\<close> with its acute accent), with digits \<open>ds\<close> whose number \<open>N = parseInt ds\<close>
  is below \<open>2^53\<close>, and the store answers the read, the answer is a body tagged with
  \<open>N\<close>: with no events when no chapter has the number \<open>N\<close>, and otherwise with the
  documents of the events of the first chapter numbered \<open>N\<close>, in the order of the
  chapter. No error status is produced.\<close>

theorem atajo_capitulo:
  assumes "matchCapitulo (trim q0) = Some ds" and "parseInt ds < 2 ^ 53"
    and "\<not> falla st AtajoCapitulo"
  shows "preguntas nlp st (Some q0) =
           Json \<lparr>r_capitulo = Numero (parseInt ds), termino = None,
                 resultados = (case findOneCapitulo st (parseInt ds) of
                                 None \<Rightarrow> []
                               | Some c \<Rightarrow> poblarEventos st (eventos c))\<rparr>"
proof -
  have "trim q0 \<noteq> []" using assms(1) by auto
  then show ?thesis using assms(1,3)
    by (cases "findOneCapitulo st (parseInt ds)") (simp_all add: preguntas_def leer_def)
qed

theorem atajo_capitulo_witness:
  "matchCapitulo (trim (js ''cap'' @ [0xED] @ js ''tulo 3'')) = Some (js ''3'')
   \<and> parseInt (js ''3'') < 2 ^ 53
   \<and> \<not> falla almacenVacio AtajoCapitulo
   \<and> (\<forall>nlp. preguntas nlp almacenVacio (Some (js ''cap'' @ [0xED] @ js ''tulo 3''))
         = Json \<lparr>r_capitulo = Numero 3, termino = None, resultados = []\<rparr>)"
proof -
  have m: "matchCapitulo (trim (js ''cap'' @ [0xED] @ js ''tulo 3'')) = Some (js ''3'')"
    by code_simp
  have f: "\<not> falla almacenVacio AtajoCapitulo"
    by (simp add: almacenVacio_def)
  have n: "parseInt (js ''3'') = 3" by code_simp
  have b: "parseInt (js ''3'') < 2 ^ 53" unfolding n by simp
  have c: "findOneCapitulo almacenVacio 3 = None"
    by (simp add: findOneCapitulo_def almacenVacio_def)
  show ?thesis using atajo_capitulo [OF m b f] m b f by (simp add: n c)
qed

text \<open>A chapter number that only the analysis finds: when no chapter bears it, the
  \<^verbatim>\<open>try\<close> block answers with the status 404.\<close>

lemma cuerpo_capitulo_404:
  assumes "capitulo an = Some n" and "n \<noteq> 0" and "\<not> falla st BuscarCapitulo"
    and "findOneCapitulo st n = None"
  shows "cuerpo st an = Inr Estado404"
  using assms by (simp add: cuerpo_def esperar_def leer_def)

lemma capitulo_solo_en_analisis:
  assumes "trim q = q" and "q \<noteq> []" and "matchCapitulo q = None"
    and "matchCapitulo (normalizar nlp q) = Some ds" and "parseInt ds \<noteq> 0"
    and "\<forall>l. \<not> falla st l" and "findOneCapitulo st (parseInt ds) = None"
  shows "preguntas nlp st (Some q) = Estado404"
proof -
  let ?an = "\<lparr>capitulo = map_option parseInt (matchCapitulo (normalizar nlp q)),
              terminoExistencia = detectarExistencia q,
              regexVerbos = detectarVerbos q,
              personajes = detectarPersonajes (normalizar nlp q) (colPersonajes st),
              lugares = detectarLugares (normalizar nlp q) (colLugares st),
              objetos = detectarObjetos (normalizar nlp q) (colObjetos st),
              fuzzy = (if \<not> verdadero (detectarExistencia q) then buscarEventoSimilar nlp st q else None)\<rparr>"
  have an: "analizarPregunta nlp st q = Inr ?an"
    using assms(6) by (intro analizarPregunta_Inr) simp_all
  have c: "capitulo ?an = Some (parseInt ds)" using assms(4) by simp
  have f: "\<not> falla st BuscarCapitulo" using assms(6) by simp
  have b: "cuerpo st ?an = Inr Estado404"
    using cuerpo_capitulo_404 [OF c assms(5) f assms(7)] .
  have p: "preguntas nlp st (Some q) =
       (case analizarPregunta nlp st (trim q) of
          Inl _ \<Rightarrow> Rechazada
        | Inr an \<Rightarrow> (case cuerpo st an of Inl _ \<Rightarrow> Estado500 | Inr r \<Rightarrow> r))"
    using assms(1,2,3) by (intro preguntas_analisis) simp_all
  show ?thesis by (simp only: p assms(1) an b sum.case)
qed

text \<open>C7 as stated fails: the pattern of the shortcut is not insensitive to diacritics.
  The question \<^verbatim>\<open>capitulo 3\<close> written with the accent as a combining mark (\<^verbatim>\<open>i\<close>, then
  \<open>0x301\<close>), or with a grave accent (\<open>0xEC\<close>), does not match it; the analysis
  finds the chapter number in the folded text, and with no chapter 3 in the store the
  answer is the error status 404 and not the empty body tagged 3.\<close>

theorem capitulo_acentuado_404:
  "matchCapitulo (trim (js ''capi'' @ [0x301] @ js ''tulo 3'')) = None
   \<and> preguntas (\<lambda>s. s) almacenVacio (Some (js ''capi'' @ [0x301] @ js ''tulo 3'')) = Estado404
   \<and> matchCapitulo (trim (js ''cap'' @ [0xEC] @ js ''tulo 3'')) = None
   \<and> preguntas (\<lambda>s. s) almacenVacio (Some (js ''cap'' @ [0xEC] @ js ''tulo 3'')) = Estado404"
proof -
  let ?a = "js ''capi'' @ [0x301] @ js ''tulo 3''"
  let ?b = "js ''cap'' @ [0xEC] @ js ''tulo 3''"
  have ta: "trim ?a = ?a" and na: "?a \<noteq> []" and ma: "matchCapitulo ?a = None"
    and fa: "matchCapitulo (normalizar (\<lambda>s. s) ?a) = Some (js ''3'')"
    by code_simp+
  have tb: "trim ?b = ?b" and nb: "?b \<noteq> []" and mb: "matchCapitulo ?b = None"
    and fb: "matchCapitulo (normalizar (\<lambda>s. s) ?b) = Some (js ''3'')"
    by code_simp+
  have n: "parseInt (js ''3'') \<noteq> 0" by code_simp
  have s: "\<forall>l. \<not> falla almacenVacio l" by (simp add: almacenVacio_def)
  have c: "findOneCapitulo almacenVacio (parseInt (js ''3'')) = None"
    by (simp add: findOneCapitulo_def almacenVacio_def)
  have "preguntas (\<lambda>s. s) almacenVacio (Some ?a) = Estado404"
    using capitulo_solo_en_analisis [OF ta na ma fa n s c] .
  moreover have "preguntas (\<lambda>s. s) almacenVacio (Some ?b) = Estado404"
    using capitulo_solo_en_analisis [OF tb nb mb fb n s c] .
  ultimately show ?thesis using ma mb ta tb by simp
qed

text \<open>A store with a chapter 3 of two events, the second reference dangling.\<close>

lemma atajo_capitulo_ejemplo:
  "preguntas nlp
     (almacenVacio\<lparr>colEventos := [\<lparr>e_id = 7, nombre = js ''La peste'', descripcion = None,
                                    personajes_involucrados = [], lugar_relacionado = None,
                                    generacion_relacionada = None\<rparr>],
                   colCapitulos := [\<lparr>numero = 3, eventos = [7, 8]\<rparr>]\<rparr>)
     (Some (js '' CAPITULO3 '')) =
   Json \<lparr>r_capitulo = Numero 3, termino = None,
         resultados = [\<lparr>e_id = 7, nombre = js ''La peste'', descripcion = None,
                        personajes_involucrados = [], lugar_relacionado = None,
                        generacion_relacionada = None\<rparr>]\<rparr>"
  by code_simp

subsection \<open>C8: rejected reads\<close>

text \<open>C8 (as amended): when the reads that the handler awaits outside its \<^verbatim>\<open>try\<close>
  block are answered (the chapter of the shortcut and the three loads of the analysis)
  and the read of the fuzzy ranker is answered too, every answer under rejected reads
  is either the answer that the same store gives with no rejection, or the generic
  internal error (status 500): a rejected read inside the \<^verbatim>\<open>try\<close> block never turns
  into a computed result.\<close>

theorem fallas_no_degradan:
  assumes "\<not> falla st EventosFuzzy"
    and "\<not> falla st AtajoCapitulo" and "\<not> falla st CargarPersonajes"
    and "\<not> falla st CargarLugares" and "\<not> falla st CargarObjetos"
  shows "preguntas nlp st q0 = preguntas nlp (sinFallas st) q0 \<or> preguntas nlp st q0 = Estado500"
proof (cases q0)
  case None
  then show ?thesis by (simp add: preguntas_None)
next
  case (Some q)
  show ?thesis
  proof (cases "trim q = []")
    case True
    then show ?thesis using Some by (simp add: preguntas_vacia)
  next
    case False
    show ?thesis
    proof (cases "matchCapitulo (trim q)")
      case (Some ds)
      then show ?thesis using \<open>q0 = Some q\<close> assms(2)
        by (simp add: preguntas_atajo leer_def)
    next
      case None
      have "\<exists>an. analizarPregunta nlp st (trim q) = Inr an"
        using assms(3-5) by (simp add: analizarPregunta_def Let_def esperar_def leer_def)
      then obtain an where an: "analizarPregunta nlp st (trim q) = Inr an" ..
      have an': "analizarPregunta nlp (sinFallas st) (trim q) = Inr an"
        using analizarPregunta_sinFallas [OF assms(1) an] .
      show ?thesis
      proof (cases "cuerpo st an")
        case (Inl e)
        then have "preguntas nlp st q0 = Estado500"
          using \<open>q0 = Some q\<close> False None an by (simp add: preguntas_analisis)
        then show ?thesis ..
      next
        case (Inr r)
        then have "cuerpo (sinFallas st) an = Inr r" by (rule cuerpo_sinFallas)
        then have "preguntas nlp st q0 = preguntas nlp (sinFallas st) q0"
          using \<open>q0 = Some q\<close> False None an an' Inr by (simp add: preguntas_analisis)
        then show ?thesis ..
      qed
    qed
  qed
qed


text \<open>With the join of the similar event rejected, the answer is the status 500.\<close>

theorem fallas_no_degradan_witness:
  "\<not> falla (almacenGuerra\<lparr>falla := \<lambda>l. l = PoblarFuzzy\<rparr>) EventosFuzzy
   \<and> \<not> falla (almacenGuerra\<lparr>falla := \<lambda>l. l = PoblarFuzzy\<rparr>) AtajoCapitulo
   \<and> \<not> falla (almacenGuerra\<lparr>falla := \<lambda>l. l = PoblarFuzzy\<rparr>) CargarPersonajes
   \<and> \<not> falla (almacenGuerra\<lparr>falla := \<lambda>l. l = PoblarFuzzy\<rparr>) CargarLugares
   \<and> \<not> falla (almacenGuerra\<lparr>falla := \<lambda>l. l = PoblarFuzzy\<rparr>) CargarObjetos
   \<and> preguntas (\<lambda>s. s) (almacenGuerra\<lparr>falla := \<lambda>l. l = PoblarFuzzy\<rparr>) (Some (js ''guerra civil''))
       = Estado500"
proof -
  let ?st = "almacenGuerra\<lparr>falla := \<lambda>l. l = PoblarFuzzy\<rparr>"
  have h: "\<not> falla ?st EventosFuzzy" "\<not> falla ?st AtajoCapitulo" "\<not> falla ?st CargarPersonajes"
    "\<not> falla ?st CargarLugares" "\<not> falla ?st CargarObjetos"
    by simp_all
  have c: "colPersonajes ?st = []" "colLugares ?st = []" "colObjetos ?st = []"
    by (simp_all add: almacenGuerra_def)
  have f: "buscarEventoSimilar (\<lambda>s. s) ?st (js ''guerra civil'') = Some eventoGuerra"
    by code_simp
  have b: "cuerpo ?st \<lparr>capitulo = None, terminoExistencia = None, regexVerbos = [],
             personajes = [], lugares = [], objetos = [], fuzzy = Some eventoGuerra\<rparr> = Inl ErrorBD"
    by code_simp
  have "preguntas (\<lambda>s. s) ?st (Some (js ''guerra civil'')) = Estado500"
    unfolding preguntas_guerra_civil [OF c h(3-5)] f b by simp
  then show ?thesis
    using fallas_no_degradan [OF h, of "\<lambda>s. s" "Some (js ''guerra civil'')"] h by simp
qed

text \<open>C8 as stated fails: \<^verbatim>\<open>buscarEventoSimilar\<close> catches the rejection of its read and
  answers \<^verbatim>\<open>null\<close>. The store that answers the question \<^verbatim>\<open>guerra civil\<close> with the
  similar event answers it with the empty list tagged \<^verbatim>\<open>todos\<close>, status 200, when that
  one read is rejected.\<close>

theorem fallo_fuzzy_silenciado:
  "preguntas (\<lambda>s. s) almacenGuerra (Some (js ''guerra civil''))
     = Json \<lparr>r_capitulo = Similar, termino = None, resultados = [eventoGuerra]\<rparr>
   \<and> preguntas (\<lambda>s. s) (almacenGuerra\<lparr>falla := \<lambda>l. l = EventosFuzzy\<rparr>) (Some (js ''guerra civil''))
     = Json \<lparr>r_capitulo = Todos, termino = None, resultados = []\<rparr>"
proof -
  let ?st = "almacenGuerra\<lparr>falla := \<lambda>l. l = EventosFuzzy\<rparr>"
  have h0: "\<not> falla almacenGuerra CargarPersonajes" "\<not> falla almacenGuerra CargarLugares"
    "\<not> falla almacenGuerra CargarObjetos"
    by (simp_all add: almacenGuerra_def)
  have h: "\<not> falla ?st CargarPersonajes" "\<not> falla ?st CargarLugares" "\<not> falla ?st CargarObjetos"
    by simp_all
  have c0: "colPersonajes almacenGuerra = []" "colLugares almacenGuerra = []" "colObjetos almacenGuerra = []"
    by (simp_all add: almacenGuerra_def)
  have c: "colPersonajes ?st = []" "colLugares ?st = []" "colObjetos ?st = []"
    by (simp_all add: almacenGuerra_def)
  have f0: "buscarEventoSimilar (\<lambda>s. s) almacenGuerra (js ''guerra civil'') = Some eventoGuerra"
    by code_simp
  have f: "buscarEventoSimilar (\<lambda>s. s) ?st (js ''guerra civil'') = None"
    by (simp add: buscarEventoSimilar_def leer_def)
  have b0: "cuerpo almacenGuerra \<lparr>capitulo = None, terminoExistencia = None, regexVerbos = [],
             personajes = [], lugares = [], objetos = [], fuzzy = Some eventoGuerra\<rparr>
            = Inr (Json \<lparr>r_capitulo = Similar, termino = None, resultados = [eventoGuerra]\<rparr>)"
    by code_simp
  have b: "cuerpo ?st \<lparr>capitulo = None, terminoExistencia = None, regexVerbos = [],
             personajes = [], lugares = [], objetos = [], fuzzy = None\<rparr>
            = Inr (Json \<lparr>r_capitulo = Todos, termino = None, resultados = []\<rparr>)"
    by code_simp
  have "preguntas (\<lambda>s. s) almacenGuerra (Some (js ''guerra civil''))
     = Json \<lparr>r_capitulo = Similar, termino = None, resultados = [eventoGuerra]\<rparr>"
    unfolding preguntas_guerra_civil [OF c0 h0] f0 b0 by simp
  moreover have "preguntas (\<lambda>s. s) ?st (Some (js ''guerra civil''))
     = Json \<lparr>r_capitulo = Todos, termino = None, resultados = []\<rparr>"
    unfolding preguntas_guerra_civil [OF c h] f b by simp
  ultimately show ?thesis by simp
qed

subsection \<open>C9: folding twice\<close>

text \<open>C9 (as amended): folding is idempotent on every string whose code units are
  all below \<open>0x100\<close> (Basic Latin and Latin-1 Supplement).\<close>

theorem limpiarTexto_idempotent_latin1:
  "latin1 x \<Longrightarrow> limpiarTexto (limpiarTexto x) = limpiarTexto x"
proof -
  assume l: "latin1 x"
  then have "limpiarTexto (limpiarTexto x) = map foldCU (limpiarTexto x)"
    by (rule limpiarTexto_latin1 [OF latin1_limpiarTexto])
  also have "\<dots> = map foldCU (map foldCU x)"
    using l by (simp only: limpiarTexto_latin1)
  also have "\<dots> = map foldCU x"
    by (simp add: foldCU_idem)
  finally show ?thesis using l by (simp only: limpiarTexto_latin1)
qed

theorem limpiarTexto_idempotent_latin1_witness:
  "latin1 (js ''Muri'' @ [0xF3]) \<and> limpiarTexto (js ''Muri'' @ [0xF3]) = js ''murio''
   \<and> limpiarTexto (limpiarTexto (js ''Muri'' @ [0xF3])) = limpiarTexto (js ''Muri'' @ [0xF3])"
proof -
  have l: "latin1 (js ''Muri'' @ [0xF3])" by code_simp
  have e: "limpiarTexto (js ''Muri'' @ [0xF3]) = js ''murio''" by code_simp
  show ?thesis using l e limpiarTexto_idempotent_latin1 [OF l] by simp
qed

text \<open>C9 as stated fails: in the string of \<^verbatim>\<open>a\<close>, the Hebrew accent \<open>0x592\<close> (class
  230), the combining grapheme joiner \<open>0x34F\<close> (class 0) and the Hebrew accent
  \<open>0x591\<close> (class 220) the joiner keeps the two accents apart; the first folding
  removes it, and the second folding reorders the accents.\<close>

theorem limpiarTexto_not_idempotent:
  "limpiarTexto (limpiarTexto [0x61, 0x592, 0x34F, 0x591]) \<noteq> limpiarTexto [0x61, 0x592, 0x34F, 0x591]"
  by code_simp

subsection \<open>C10: the keys written twice\<close>

text \<open>The second lists of the three keys written twice, and the forms that stand only
  in a first list.\<close>

definition formasCasar :: "jsstring list" where
  "formasCasar =
     [js ''casarse'', js ''se cas'' @ [0xF3], js ''contrajo matrimonio'', js ''contrajo nupcias'',
      js ''matrimonio'', js ''boda'', js ''se uni'' @ [0xF3], js ''se despos'' @ [0xF3],
      js ''despos'' @ [0xF3], js ''celebr'' @ [0xF3] @ js '' su boda'']"

definition formasPerder :: "jsstring list" where
  "formasPerder =
     [js ''perder'', js ''perdi'' @ [0xF3], js ''derrota'', js ''fracas'' @ [0xF3],
      js ''fue vencido'', js ''cay'' @ [0xF3]]"

definition formasCambiar :: "jsstring list" where
  "formasCambiar =
     [js ''cambiar'', js ''cambio'', js ''cambi'' @ [0xF3], js ''modificar'', js ''transformar'',
      js ''modific'' @ [0xF3], js ''transform'' @ [0xF3], js ''fue modificado'', js ''variar'',
      js ''variaci'' @ [0xF3] @ js ''n'', js ''se transform'' @ [0xF3]]"

definition formasSinEfecto :: "jsstring list" where
  "formasSinEfecto =
     [js ''uni'' @ [0xF3], js ''perdido'', js ''p'' @ [0xE9] @ js ''rdida'', js ''se le fue'',
      js ''mut'' @ [0xF3], js ''evolucion'' @ [0xF3]]"

text \<open>The literal writes each of the three keys twice.\<close>

lemma claves_duplicadas:
  "map (\<lambda>k. length (filter (\<lambda>e. fst e = k) verbosClaveLiteral)) [js ''casar'', js ''perder'', js ''cambiar'']
     = [2, 2, 2]"
  by code_simp

lemma entradas_duplicadas:
  "map (\<lambda>k. filter (\<lambda>e. fst e = k) verbosClave) [js ''casar'', js ''perder'', js ''cambiar'']
     = [[(js ''casar'', formasCasar)], [(js ''perder'', formasPerder)], [(js ''cambiar'', formasCambiar)]]"
  by code_simp

text \<open>\<open>formasSinEfecto\<close> holds exactly the forms of the overwritten lists that
  stand in no list in effect (\<^verbatim>\<open>desaparecio\<close> and \<^verbatim>\<open>se perdio\<close> of the first list of
  \<^verbatim>\<open>perder\<close> are forms of \<^verbatim>\<open>desaparecer\<close> too, and stay).\<close>

lemma formasSinEfecto_calculadas:
  "filter (\<lambda>f. f \<notin> set formasEnVigor)
     (concat (map snd (filter (\<lambda>e. e \<notin> set verbosClave) verbosClaveLiteral))) = formasSinEfecto"
  by code_simp

lemma patrones_sin_efecto:
  "list_all (\<lambda>f. formaRegExp f \<notin> set (map formaRegExp formasEnVigor)) formasSinEfecto"
  by code_simp

lemma no_disparan:
  "\<not> dispara formasCasar (js ''uni'' @ [0xF3])
   \<and> \<not> dispara formasPerder (js ''perdido'')
   \<and> \<not> dispara formasPerder (js ''p'' @ [0xE9] @ js ''rdida'')
   \<and> \<not> dispara formasPerder (js ''se le fue'')
   \<and> \<not> dispara formasCambiar (js ''mut'' @ [0xF3])
   \<and> \<not> dispara formasCambiar (js ''evolucion'' @ [0xF3])"
  by code_simp

text \<open>C10: each of the keys \<^verbatim>\<open>casar\<close>, \<^verbatim>\<open>perder\<close> and \<^verbatim>\<open>cambiar\<close> has one entry in the
  table in effect, with the list written last. For every question, the matcher emits no
  pattern of a form that stands only in an overwritten list (\<^verbatim>\<open>unio\<close>, \<^verbatim>\<open>perdido\<close>,
  \<^verbatim>\<open>perdida\<close>, \<^verbatim>\<open>se le fue\<close>, \<^verbatim>\<open>muto\<close>, \<^verbatim>\<open>evoluciono\<close>, with their accents), and a
  question that is just such a form does not trigger the intent of its key.\<close>

theorem formas_sobrescritas:
  "map (\<lambda>k. filter (\<lambda>e. fst e = k) verbosClave) [js ''casar'', js ''perder'', js ''cambiar'']
     = [[(js ''casar'', formasCasar)], [(js ''perder'', formasPerder)], [(js ''cambiar'', formasCambiar)]]
   \<and> (\<forall>q. \<forall>f\<in>set formasSinEfecto. formaRegExp f \<notin> set (detectarVerbos q))
   \<and> \<not> dispara formasCasar (js ''uni'' @ [0xF3])
   \<and> \<not> dispara formasPerder (js ''perdido'')
   \<and> \<not> dispara formasPerder (js ''p'' @ [0xE9] @ js ''rdida'')
   \<and> \<not> dispara formasPerder (js ''se le fue'')
   \<and> \<not> dispara formasCambiar (js ''mut'' @ [0xF3])
   \<and> \<not> dispara formasCambiar (js ''evolucion'' @ [0xF3])"
proof -
  have "formaRegExp f \<notin> set (detectarVerbos q)" if "f \<in> set formasSinEfecto" for q f
  proof -
    have "formaRegExp f \<notin> formaRegExp ` set formasEnVigor"
      using patrones_sin_efecto that by (auto simp: list_all_iff)
    then show ?thesis using detectarVerbos_en_vigor [of q] by blast
  qed
  then show ?thesis using entradas_duplicadas no_disparan by blast
qed

theorem formas_sobrescritas_witness:
  "js ''perdido'' \<in> set formasSinEfecto
   \<and> formaRegExp (js ''perdido'') \<notin> set (detectarVerbos (js ''El anillo perdido''))"
proof -
  have a: "js ''perdido'' \<in> set formasSinEfecto" by (simp add: formasSinEfecto_def)
  show ?thesis using formas_sobrescritas a by blast
qed

end
